theory Spec2Isabelle
  imports Complex_Main
begin

section \<open>Data model (types.ts)\<close>

datatype LoadingStage =
  IDLE | WRITING_SCRIPT | GENERATING_ART | SYNTHESIZING_AUDIO | COMPLETE | ERROR

datatype speaker = Host | Guest

record DialogueLine =
  speaker :: speaker
  "text" :: string

record PodcastScript =
  title :: string
  topic :: string
  dialogue :: "DialogueLine list"

text \<open>
  A decoded \<^verbatim>\<open>AudioBuffer\<close> is opaque to the application; only its existence matters to
  the code. Times (\<^verbatim>\<open>AudioContext.currentTime\<close>, offsets) are JavaScript numbers in
  seconds: the doubles, a subset of the reals. Where the code adds or subtracts two of
  them, the model rounds the exact result with a function \<open>rnd\<close> that it takes as a
  parameter; for the code this is the rounding of IEEE 754 doubles to nearest.
\<close>

datatype audio_buffer = AudioBuffer (duration: real)

record PodcastEpisode =
  episode_id :: string
  script :: PodcastScript
  coverImageBase64 :: "string option"
  audioBuffer :: "audio_buffer option"

text \<open>A thrown JavaScript value: an \<^verbatim>\<open>Error\<close> with its message, or one of the built-in
  exception kinds the code can meet.\<close>

datatype js_error =
  Error (message: string)
| TypeError (message: string)
| RangeError (message: string)
| SyntaxError (message: string)
| DOMException (message: string)

section \<open>The audio graph (browser primitives used by the code)\<close>

datatype ctx_state = Suspended | Running | Closed

datatype target = Destination | Analyser nat

text \<open>
  An \<^verbatim>\<open>AudioBufferSourceNode\<close>: its buffer, the nodes it is connected to, the offset it
  was started at (\<open>None\<close> while never started), whether it was stopped, and whether the
  application has installed an \<^verbatim>\<open>onended\<close> handler on it.
\<close>

record source_node =
  src_buffer :: "audio_buffer option"
  outputs :: "target list"
  started :: "real option"
  stopped :: bool
  has_onended :: bool

definition createBufferSource :: source_node where
  "createBufferSource =
     \<lparr>src_buffer = None, outputs = [], started = None, stopped = False, has_onended = False\<rparr>"

text \<open>\<^verbatim>\<open>stop()\<close> raises InvalidStateError on a node that was never started.\<close>

definition node_stop :: "source_node \<Rightarrow> js_error + source_node" where
  "node_stop n =
     (if started n = None then Inl (DOMException ''InvalidStateError'')
      else Inr (n\<lparr>stopped := True\<rparr>))"

text \<open>\<^verbatim>\<open>start(0, offset)\<close> raises RangeError on a negative offset and InvalidStateError on
  a node that was started before.\<close>

definition node_start :: "real \<Rightarrow> source_node \<Rightarrow> js_error + source_node" where
  "node_start offset n =
     (if offset < 0 then Inl (RangeError ''offset'')
      else if started n \<noteq> None then Inl (DOMException ''InvalidStateError'')
      else Inr (n\<lparr>started := Some offset\<rparr>))"

section \<open>Application state (the App component)\<close>

text \<open>
  The React state variables and the four refs of \<^verbatim>\<open>App\<close>, together with the store of
  source nodes created so far; \<open>sourceNodeRef\<close> holds an index into that store.
\<close>

record app_state =
  app_topic :: string
  loadingStage :: LoadingStage
  episode :: "PodcastEpisode option"
  isPlaying :: bool
  error :: "string option"
  audioContextRef :: "ctx_state option"
  sourceNodeRef :: "nat option"
  startTimeRef :: real
  pausedTimeRef :: real
  nodes :: "source_node list"

definition initial_state :: app_state where
  "initial_state =
     \<lparr>app_topic = [], loadingStage = IDLE, episode = None, isPlaying = False, error = None,
      audioContextRef = None, sourceNodeRef = None, startTimeRef = 0, pausedTimeRef = 0,
      nodes = []\<rparr>"

text \<open>\<^verbatim>\<open>try { sourceNodeRef.current.stop(); } catch (e) {}\<close>: the node is marked stopped
  when the call succeeds and left as it is when the call raises.\<close>

definition try_stop :: "nat \<Rightarrow> app_state \<Rightarrow> app_state" where
  "try_stop i s =
     (if i < length (nodes s) then
        (case node_stop (nodes s ! i) of
           Inl e \<Rightarrow> s
         | Inr n \<Rightarrow> s\<lparr>nodes := (nodes s)[i := n]\<rparr>)
      else s)"

text \<open>The guard of \<^verbatim>\<open>togglePlayback\<close>: an episode, its decoded buffer and an audio context.\<close>

definition playable :: "app_state \<Rightarrow> audio_buffer option" where
  "playable s =
     (case episode s of
        None \<Rightarrow> None
      | Some ep \<Rightarrow>
          (case audioBuffer ep of
             None \<Rightarrow> None
           | Some b \<Rightarrow> (case audioContextRef s of None \<Rightarrow> None | Some c \<Rightarrow> Some b)))"

text \<open>The body of the \<^verbatim>\<open>source.onended\<close> callback.\<close>

definition onended :: "app_state \<Rightarrow> app_state" where
  "onended s = s\<lparr>isPlaying := False, pausedTimeRef := 0\<rparr>"

text \<open>
  \<^verbatim>\<open>togglePlayback\<close>, run when the context clock reads \<open>now\<close>. \<open>Inl\<close> is an exception
  that leaves the handler (only \<^verbatim>\<open>start\<close> can raise one). The pause branch computes
  \<^verbatim>\<open>pausedTimeRef.current += currentTime - startTimeRef.current\<close>: a subtraction and an
  addition of doubles, each rounded.
\<close>

definition togglePlayback :: "(real \<Rightarrow> real) \<Rightarrow> real \<Rightarrow> app_state \<Rightarrow> js_error + app_state" where
  "togglePlayback rnd now s =
     (case playable s of
        None \<Rightarrow> Inr s
      | Some b \<Rightarrow>
          if isPlaying s then
            (case sourceNodeRef s of
               None \<Rightarrow> Inr s
             | Some i \<Rightarrow>
                 Inr ((try_stop i s)
                        \<lparr>isPlaying := False,
                         pausedTimeRef :=
                           rnd (pausedTimeRef s + rnd (now - startTimeRef s))\<rparr>))
          else
            (let source = createBufferSource\<lparr>src_buffer := Some b, outputs := [Destination]\<rparr>
             in case node_start (pausedTimeRef s) source of
                  Inl e \<Rightarrow> Inl e
                | Inr source' \<Rightarrow>
                    Inr (s\<lparr>startTimeRef := now,
                           sourceNodeRef := Some (length (nodes s)),
                           isPlaying := True,
                           nodes := nodes s @ [source'\<lparr>has_onended := True\<rparr>]\<rparr>)))"

text \<open>
  The browser dispatches \<^verbatim>\<open>ended\<close> on node \<open>i\<close>, as it does once the node has stopped
  playing, at the end of its buffer or after \<^verbatim>\<open>stop()\<close>: the handler installed on the node,
  if any, runs.
\<close>

definition source_ended :: "nat \<Rightarrow> app_state \<Rightarrow> app_state" where
  "source_ended i s =
     (if i < length (nodes s) \<and> has_onended (nodes s ! i) then onended s else s)"

text \<open>One handler after another: the second runs on the state the first left, unless the
  first raised.\<close>

definition and_then :: "js_error + 'a \<Rightarrow> ('a \<Rightarrow> js_error + 'b) \<Rightarrow> js_error + 'b" where
  "and_then r f = (case r of Inl x \<Rightarrow> Inl x | Inr a \<Rightarrow> f a)"

section \<open>The generative AI provider (geminiService)\<close>

subsection \<open>Requests and responses\<close>

datatype req_config =
  ScriptSchemaConfig
| ImageConfig string string
| SpeechConfig "(speaker \<times> string) list"

record request =
  model :: string
  contents :: string
  config :: req_config

text \<open>
  The response object of the provider's SDK. Every level is optional, as the optional
  chaining of \<^verbatim>\<open>generateAudio\<close> and the guards of \<^verbatim>\<open>generateCoverArt\<close> treat it.
\<close>

record Blob =
  data :: "string option"

record Part =
  part_text :: "string option"
  inlineData :: "Blob option"

record Content =
  parts :: "Part list option"

record Candidate =
  content :: "Content option"

record GenerateContentResponse =
  resp_text :: "string option"
  candidates :: "Candidate list option"

text \<open>
  Everything outside the repository that a generation run consults: the configured
  credential, the provider's reply to each request (\<open>Inl\<close> is a rejected call), the
  browser's \<^verbatim>\<open>JSON.parse\<close>, \<^verbatim>\<open>atob\<close> and \<^verbatim>\<open>decodeAudioData\<close>, the audio context
  constructor (\<open>None\<close> when the browser has none, else the state of a fresh context), the
  clock, and which of two failing parallel stages rejects first.
\<close>

record env =
  API_KEY :: "string option"
  generateContent :: "request \<Rightarrow> js_error + GenerateContentResponse"
  JSON_parse :: "string \<Rightarrow> js_error + PodcastScript"
  atob :: "string \<Rightarrow> js_error + nat list"
  decodeAudioData :: "nat list \<Rightarrow> js_error + audio_buffer"
  AudioContextClass :: "ctx_state option"
  Date_now :: nat
  audio_rejects_first :: bool

text \<open>JavaScript falsiness of an optional string: \<^verbatim>\<open>undefined\<close> or the empty string.\<close>

definition falsy :: "string option \<Rightarrow> bool" where
  "falsy v = (case v of None \<Rightarrow> True | Some x \<Rightarrow> x = [])"

definition nl :: string where
  "nl = [CHR 0x0A]"

definition dq :: string where
  "dq = [CHR 0x22]"

definition sq :: string where
  "sq = [CHR 0x27]"

text \<open>The message of the TypeError raised on reading a property of \<^verbatim>\<open>undefined\<close>; the
  wording is the engine's (V8's here).\<close>

definition undefined_read :: "string \<Rightarrow> string" where
  "undefined_read prop =
     ''Cannot read properties of undefined (reading '' @ sq @ prop @ sq @ '')''"

text \<open>A stage returns the requests it issued, in order, and its outcome.\<close>

type_synonym 'a stage = "request list \<times> (js_error + 'a)"

definition getAiClient :: "env \<Rightarrow> js_error + unit" where
  "getAiClient e =
     (if falsy (API_KEY e) then Inl (Error ''API_KEY not found in environment'')
      else Inr ())"

subsection \<open>Step 1: the script\<close>

definition script_prompt :: "string \<Rightarrow> string" where
  "script_prompt tp =
     ''Create a short, engaging podcast script about: '' @ dq @ tp @ dq @ ''.'' @ nl @
     ''  There are two speakers: '' @ dq @ ''Host'' @ dq @
       '' (energetic, knowledgeable) and '' @ dq @ ''Guest'' @ dq @
       '' (curious, asks good questions).'' @ nl @
     ''  The conversation should be approximately 6-8 exchanges long.'' @ nl @
     ''  Keep it punchy and fun.'' @ nl @
     ''  Return ONLY valid JSON.''"

definition script_request :: "string \<Rightarrow> request" where
  "script_request tp =
     \<lparr>model = ''gemini-3-pro-preview'', contents = script_prompt tp,
      config = ScriptSchemaConfig\<rparr>"

definition generateScript :: "env \<Rightarrow> string \<Rightarrow> PodcastScript stage" where
  "generateScript e tp =
     (case getAiClient e of
        Inl x \<Rightarrow> ([], Inl x)
      | Inr ai \<Rightarrow>
          (let req = script_request tp in
           case generateContent e req of
             Inl x \<Rightarrow> ([req], Inl x)
           | Inr response \<Rightarrow>
               if falsy (resp_text response) then ([req], Inl (Error ''No script generated''))
               else ([req], JSON_parse e (the (resp_text response)))))"

subsection \<open>Step 2: the cover art\<close>

definition art_prompt :: "string \<Rightarrow> string \<Rightarrow> string" where
  "art_prompt ti tp =
     ''Album cover art for a podcast titled '' @ dq @ ti @ dq @ '' about '' @ tp @ ''. '' @ nl @
     ''  Minimalist, high-end, 4k, trending on artstation, vivid colors, '' @
       ''abstract geometric shapes or relevant symbolism. '' @ nl @
     ''  No text on image other than the title if possible, or just clean art.''"

definition art_request :: "string \<Rightarrow> string \<Rightarrow> request" where
  "art_request ti tp =
     \<lparr>model = ''gemini-3-pro-image-preview'', contents = art_prompt ti tp,
      config = ImageConfig ''1:1'' ''1K''\<rparr>"

text \<open>The \<^verbatim>\<open>for\<close> loop over the parts: the data of the first part that has an inline
  payload, or the initial empty string when no part has one.\<close>

fun scan_parts :: "Part list \<Rightarrow> string option" where
  "scan_parts [] = Some []"
| "scan_parts (p # ps) =
     (case inlineData p of Some b \<Rightarrow> data b | None \<Rightarrow> scan_parts ps)"

text \<open>
  \<^verbatim>\<open>response.candidates && response.candidates[0].content.parts\<close>: only a missing
  candidate list and missing parts are guarded; reading \<^verbatim>\<open>content\<close> of a missing first
  candidate, or \<^verbatim>\<open>parts\<close> of a missing content, raises a TypeError.
\<close>

definition extract_image :: "GenerateContentResponse \<Rightarrow> js_error + string option" where
  "extract_image response =
     (case candidates response of
        None \<Rightarrow> Inr (Some [])
      | Some [] \<Rightarrow> Inl (TypeError (undefined_read ''content''))
      | Some (c # cs) \<Rightarrow>
          (case content c of
             None \<Rightarrow> Inl (TypeError (undefined_read ''parts''))
           | Some ct \<Rightarrow>
               (case parts ct of
                  None \<Rightarrow> Inr (Some [])
                | Some ps \<Rightarrow> Inr (scan_parts ps))))"

definition generateCoverArt :: "env \<Rightarrow> string \<Rightarrow> string \<Rightarrow> string stage" where
  "generateCoverArt e ti tp =
     (case getAiClient e of
        Inl x \<Rightarrow> ([], Inl x)
      | Inr ai \<Rightarrow>
          (let req = art_request ti tp in
           case generateContent e req of
             Inl x \<Rightarrow> ([req], Inl x)
           | Inr response \<Rightarrow>
               (case extract_image response of
                  Inl x \<Rightarrow> ([req], Inl x)
                | Inr base64Data \<Rightarrow>
                    if falsy base64Data then ([req], Inl (Error ''No image generated''))
                    else ([req], Inr (''data:image/png;base64,'' @ the base64Data)))))"

subsection \<open>Step 3: the multi-speaker audio\<close>

definition speaker_name :: "speaker \<Rightarrow> string" where
  "speaker_name sp = (case sp of Host \<Rightarrow> ''Host'' | Guest \<Rightarrow> ''Guest'')"

definition render_line :: "DialogueLine \<Rightarrow> string" where
  "render_line l = speaker_name (speaker l) @ '': '' @ text l"

text \<open>\<^verbatim>\<open>Array.prototype.join\<close>.\<close>

fun join :: "string \<Rightarrow> string list \<Rightarrow> string" where
  "join sep [] = []"
| "join sep [x] = x"
| "join sep (x # y # ys) = x @ sep @ join sep (y # ys)"

definition scriptText :: "PodcastScript \<Rightarrow> string" where
  "scriptText scr = join nl (map render_line (dialogue scr))"

definition tts_prompt :: "PodcastScript \<Rightarrow> string" where
  "tts_prompt scr =
     ''Read the following dialogue exactly as written, '' @
     ''assigning the voices to the correct speakers.'' @ nl @ nl @ scriptText scr"

definition tts_request :: "PodcastScript \<Rightarrow> string \<Rightarrow> request" where
  "tts_request scr guest_voice =
     \<lparr>model = ''gemini-2.5-flash-preview-tts'', contents = tts_prompt scr,
      config = SpeechConfig [(Host, ''Fenrir''), (Guest, guest_voice)]\<rparr>"

text \<open>\<^verbatim>\<open>safeResponse.candidates?.[0]?.content?.parts?.[0]?.inlineData?.data\<close>.\<close>

definition first_part_data :: "GenerateContentResponse \<Rightarrow> string option" where
  "first_part_data response =
     (case candidates response of
        None \<Rightarrow> None
      | Some [] \<Rightarrow> None
      | Some (c # cs) \<Rightarrow>
          (case content c of
             None \<Rightarrow> None
           | Some ct \<Rightarrow>
               (case parts ct of
                  None \<Rightarrow> None
                | Some [] \<Rightarrow> None
                | Some (p # ps) \<Rightarrow>
                    (case inlineData p of None \<Rightarrow> None | Some b \<Rightarrow> data b))))"

text \<open>The byte loop: \<^verbatim>\<open>bytes[i] = binaryString.charCodeAt(i)\<close> into a \<^verbatim>\<open>Uint8Array\<close>.\<close>

definition to_bytes :: "nat list \<Rightarrow> nat list" where
  "to_bytes binaryString = map (\<lambda>c. c mod 256) binaryString"

definition generateAudio :: "env \<Rightarrow> PodcastScript \<Rightarrow> audio_buffer stage" where
  "generateAudio e scr =
     (case getAiClient e of
        Inl x \<Rightarrow> ([], Inl x)
      | Inr ai \<Rightarrow>
          (let req = tts_request scr ''Nova'' in
           case generateContent e req of
             Inl x \<Rightarrow> ([req], Inl x)
           | Inr response \<Rightarrow>
               (let safeReq = tts_request scr ''Kore'' in
                case generateContent e safeReq of
                  Inl x \<Rightarrow> ([req, safeReq], Inl x)
                | Inr safeResponse \<Rightarrow>
                    (let audioBase64 =
                           (if falsy (first_part_data safeResponse) then []
                            else the (first_part_data safeResponse))
                     in if audioBase64 = [] then
                          ([req, safeReq], Inl (Error ''No audio generated''))
                        else
                          (case atob e audioBase64 of
                             Inl x \<Rightarrow> ([req, safeReq], Inl x)
                           | Inr binaryString \<Rightarrow>
                               ([req, safeReq],
                                decodeAudioData e (to_bytes binaryString)))))))"

section \<open>Generating an episode (handleGenerate)\<close>

text \<open>
  \<^verbatim>\<open>!topic.trim()\<close>: the topic is empty or consists of white space only. Strings are
  lists of 8-bit code units here, so the white space of JavaScript is modelled up to code
  unit 255: tab, line feed, vertical tab, form feed, carriage return, space and the
  no-break space.
\<close>

definition is_space :: "char \<Rightarrow> bool" where
  "is_space c =
     (c \<in> set [CHR 0x09, CHR 0x0A, CHR 0x0B, CHR 0x0C, CHR 0x0D, CHR 0x20, CHR 0xA0])"

definition blank :: "string \<Rightarrow> bool" where
  "blank tp = list_all is_space tp"

text \<open>
  \<^verbatim>\<open>initAudio\<close>: constructs the context when there is none (a TypeError when the browser
  offers no constructor) and resumes a suspended one (the resumption is taken to be
  immediate; nothing in the application reads the context's state again).
\<close>

definition initAudio :: "env \<Rightarrow> app_state \<Rightarrow> js_error + app_state" where
  "initAudio e s =
     (case (case audioContextRef s of None \<Rightarrow> AudioContextClass e | Some c \<Rightarrow> Some c) of
        None \<Rightarrow> Inl (TypeError ''AudioContextClass is not a constructor'')
      | Some c \<Rightarrow> Inr (s\<lparr>audioContextRef := Some (if c = Suspended then Running else c)\<rparr>))"

text \<open>The statements before the \<^verbatim>\<open>try\<close> block.\<close>

definition begin_generate :: "app_state \<Rightarrow> app_state" where
  "begin_generate s =
     (let s' = s\<lparr>error := None, episode := None, isPlaying := False\<rparr>
      in case sourceNodeRef s' of None \<Rightarrow> s' | Some i \<Rightarrow> try_stop i s')"

text \<open>The \<^verbatim>\<open>catch\<close> block.\<close>

definition fail_generate :: "js_error \<Rightarrow> app_state \<Rightarrow> app_state" where
  "fail_generate x s =
     s\<lparr>error := Some (if message x = [] then ''Something went wrong creating your podcast.''
                       else message x),
       loadingStage := ERROR\<rparr>"

text \<open>
  \<^verbatim>\<open>await Promise.all([artPromise, audioPromise])\<close>: both results, or the reason of the
  promise that rejected first.
\<close>

definition promise_all :: "bool \<Rightarrow> js_error + 'a \<Rightarrow> js_error + 'b \<Rightarrow> js_error + ('a \<times> 'b)" where
  "promise_all second_first a b =
     (case a of
        Inl x \<Rightarrow> (case b of Inl y \<Rightarrow> Inl (if second_first then y else x) | Inr v \<Rightarrow> Inl x)
      | Inr u \<Rightarrow> (case b of Inl y \<Rightarrow> Inl y | Inr v \<Rightarrow> Inr (u, v)))"

text \<open>\<^verbatim>\<open>Date.now().toString()\<close>.\<close>

fun toString :: "nat \<Rightarrow> string" where
  "toString n =
     (if n < 10 then [''0123456789'' ! n]
      else toString (n div 10) @ [''0123456789'' ! (n mod 10)])"

text \<open>
  One run of \<^verbatim>\<open>handleGenerate\<close>: the requests issued to the provider, in order, and the
  successive application states (after the opening updates, after each stage marker that
  precedes an \<^verbatim>\<open>await\<close>, and at the end); the last one is the state in which the run ends.
\<close>

definition handleGenerate_run :: "env \<Rightarrow> app_state \<Rightarrow> request list \<times> app_state list" where
  "handleGenerate_run e s =
     (if blank (app_topic s) then ([], [s])
      else
        (let s0 = begin_generate s in
         case initAudio e s0 of
           Inl x \<Rightarrow> ([], [s0, fail_generate x s0])
         | Inr s1 \<Rightarrow>
             (let s2 = s1\<lparr>loadingStage := WRITING_SCRIPT\<rparr>;
                  stage1 = generateScript e (app_topic s)
              in case snd stage1 of
                   Inl x \<Rightarrow> (fst stage1, [s0, s2, fail_generate x s2])
                 | Inr scr \<Rightarrow>
                     (let s3 = s2\<lparr>loadingStage := GENERATING_ART\<rparr>;
                          art = generateCoverArt e (title scr) (topic scr);
                          s4 = s3\<lparr>loadingStage := SYNTHESIZING_AUDIO\<rparr>
                      in case audioContextRef s4 of
                           None \<Rightarrow>
                             (fst stage1 @ fst art,
                              [s0, s2, s4,
                               fail_generate (Error ''Audio Context not initialized'') s4])
                         | Some ctx \<Rightarrow>
                             (let audio = generateAudio e scr;
                                  reqs = fst stage1 @ fst art @ fst audio
                              in case promise_all (audio_rejects_first e) (snd art) (snd audio) of
                                   Inl x \<Rightarrow> (reqs, [s0, s2, s4, fail_generate x s4])
                                 | Inr (cover, buf) \<Rightarrow>
                                     (reqs,
                                      [s0, s2, s4,
                                       s4\<lparr>episode :=
                                            Some \<lparr>episode_id = toString (Date_now e),
                                                  script = scr,
                                                  coverImageBase64 = Some cover,
                                                  audioBuffer = Some buf\<rparr>,
                                          loadingStage := COMPLETE\<rparr>]))))))"

definition handleGenerate :: "env \<Rightarrow> app_state \<Rightarrow> app_state" where
  "handleGenerate e s = last (snd (handleGenerate_run e s))"

definition provider_calls :: "env \<Rightarrow> app_state \<Rightarrow> request list" where
  "provider_calls e s = fst (handleGenerate_run e s)"

section \<open>The transcript (renderScript)\<close>

text \<open>One rendered turn: its React key, the classes of the row and of the bubble, the
  speaker label and the text.\<close>

record turn =
  turn_key :: nat
  row_class :: string
  bubble_class :: string
  label :: string
  body :: string

definition render_turn :: "nat \<Rightarrow> DialogueLine \<Rightarrow> turn" where
  "render_turn idx line =
     \<lparr>turn_key = idx,
      row_class = ''flex flex-col '' @ (if speaker line = Host then ''items-start'' else ''items-end''),
      bubble_class =
        ''max-w-[85%] p-3 rounded-2xl text-sm leading-relaxed '' @
        (if speaker line = Host
         then ''bg-indigo-500/20 rounded-tl-none border border-indigo-500/30 text-indigo-100''
         else ''bg-purple-500/20 rounded-tr-none border border-purple-500/30 text-purple-100''),
      label = speaker_name (speaker line),
      body = text line\<rparr>"

definition renderScript :: "app_state \<Rightarrow> turn list option" where
  "renderScript s =
     (case episode s of
        None \<Rightarrow> None
      | Some ep \<Rightarrow>
          Some (map (\<lambda>(idx, line). render_turn idx line)
                  (enumerate 0 (dialogue (script ep)))))"

section \<open>The visualizer (AudioVisualizer)\<close>

text \<open>
  The component's refs and the part of the browser it touches: the number of analyser nodes
  created so far, the edges from source nodes to analysers, the animation frames requested and
  cancelled, and the bars last painted on the canvas (x, y, width, height).
\<close>

record analyser_node =
  node_id :: nat
  fftSize :: nat

record vis_state =
  analyserRef :: "analyser_node option"
  animationRef :: nat
  analysers_created :: nat
  edges :: "(nat \<times> nat) list"
  frames_requested :: nat
  frames_cancelled :: "nat list"
  canvas :: "(real \<times> real \<times> real \<times> real) list"

record vis_props =
  audioContext :: "ctx_state option"
  sourceNode :: "nat option"
  playing :: bool

text \<open>
  What the browser does at one run of the effect: whether the canvas and its 2d context
  are there, how \<^verbatim>\<open>connect\<close> answers for the current edges (\<open>Inl\<close> when it raises), and
  the frequency snapshot the analyser hands out.
\<close>

record vis_env =
  has_canvas :: bool
  has_ctx2d :: bool
  connect :: "(nat \<times> nat) list \<Rightarrow> nat \<Rightarrow> nat \<Rightarrow> js_error + (nat \<times> nat) list"
  frequency_data :: "nat list"

definition cancelAnimationFrame :: "nat \<Rightarrow> vis_state \<Rightarrow> vis_state" where
  "cancelAnimationFrame i v = v\<lparr>frames_cancelled := frames_cancelled v @ [i]\<rparr>"

text \<open>The bars of one frame, from the \<^verbatim>\<open>for\<close> loop of \<^verbatim>\<open>draw\<close>: canvas 600 by 100.\<close>

fun bars :: "real \<Rightarrow> real \<Rightarrow> nat list \<Rightarrow> (real \<times> real \<times> real \<times> real) list" where
  "bars barWidth x [] = []"
| "bars barWidth x (d # ds) =
     (x, 100 - real d / 2, barWidth, real d / 2) # bars barWidth (x + (barWidth + 1)) ds"

text \<open>\<^verbatim>\<open>getByteFrequencyData\<close> into a \<^verbatim>\<open>Uint8Array\<close> of \<open>n\<close> bytes.\<close>

definition getByteFrequencyData :: "nat \<Rightarrow> nat list \<Rightarrow> nat list" where
  "getByteFrequencyData n snapshot =
     map (\<lambda>i. if i < length snapshot then snapshot ! i mod 256 else 0) [0..<n]"

text \<open>One call of \<^verbatim>\<open>draw\<close>: it requests the next frame, then paints.\<close>

definition draw :: "vis_env \<Rightarrow> nat \<Rightarrow> vis_state \<Rightarrow> vis_state" where
  "draw e bufferLength v =
     (let v' = v\<lparr>frames_requested := frames_requested v + 1,
                 animationRef := frames_requested v + 1\<rparr>
      in case analyserRef v' of
           None \<Rightarrow> v'
         | Some a \<Rightarrow>
             v'\<lparr>canvas := bars (600 / real bufferLength * 2.5) 0
                            (getByteFrequencyData bufferLength (frequency_data e))\<rparr>)"

text \<open>
  The body of the effect. The \<^verbatim>\<open>try\<close>/\<^verbatim>\<open>catch\<close> around \<^verbatim>\<open>sourceNode.connect\<close> keeps the
  edges as they are when the call raises. \<open>Inl\<close> would be an exception leaving the effect.
\<close>

definition attach :: "vis_env \<Rightarrow> nat \<Rightarrow> nat \<Rightarrow> vis_state \<Rightarrow> js_error + vis_state" where
  "attach e src a v =
     (case connect e (edges v) src a of
        Inl x \<Rightarrow> Inr v
      | Inr es \<Rightarrow> Inr (v\<lparr>edges := es\<rparr>))"

definition AudioVisualizer_effect :: "vis_env \<Rightarrow> vis_props \<Rightarrow> vis_state \<Rightarrow> js_error + vis_state" where
  "AudioVisualizer_effect e p v =
     (case (audioContext p, sourceNode p, playing p) of
        (Some ctx, Some src, True) \<Rightarrow>
          if \<not> has_canvas e then Inr v
          else if \<not> has_ctx2d e then Inr v
          else
            (let a = (case analyserRef v of
                        None \<Rightarrow> \<lparr>node_id = analysers_created v, fftSize = 256\<rparr>
                      | Some a' \<Rightarrow> a');
                 v1 = (case analyserRef v of
                         None \<Rightarrow> v\<lparr>analyserRef := Some a,
                                    analysers_created := analysers_created v + 1\<rparr>
                       | Some a' \<Rightarrow> v)
             in case attach e src (node_id a) v1 of
                  Inl x \<Rightarrow> Inl x
                | Inr v2 \<Rightarrow> Inr (draw e (fftSize a div 2) v2))
      | _ \<Rightarrow> Inr (if animationRef v \<noteq> 0 then cancelAnimationFrame (animationRef v) v else v))"

text \<open>The cleanup React runs before the effect runs again.\<close>

definition effect_cleanup :: "vis_state \<Rightarrow> vis_state" where
  "effect_cleanup v = cancelAnimationFrame (animationRef v) v"

text \<open>A browser whose \<^verbatim>\<open>connect\<close> raises on an edge that already exists.\<close>

definition strict_connect :: "(nat \<times> nat) list \<Rightarrow> nat \<Rightarrow> nat \<Rightarrow> js_error + (nat \<times> nat) list" where
  "strict_connect es src a =
     (if (src, a) \<in> set es then Inl (DOMException ''InvalidAccessError'')
      else Inr (es @ [(src, a)]))"

section \<open>A concrete session\<close>

text \<open>The topic of the specification's end-to-end scenario, a two-turn script, and provider
  replies built from one inline payload or one text.\<close>

definition demo_script :: PodcastScript where
  "demo_script =
     \<lparr>title = ''Sushi'', topic = ''The history of Sushi'',
      dialogue = [\<lparr>speaker = Host, text = ''Welcome''\<rparr>, \<lparr>speaker = Guest, text = ''Hi''\<rparr>]\<rparr>"

definition text_part :: "string \<Rightarrow> Part" where
  "text_part t = \<lparr>part_text = Some t, inlineData = None\<rparr>"

definition inline_part :: "string \<Rightarrow> Part" where
  "inline_part d = \<lparr>part_text = None, inlineData = Some \<lparr>data = Some d\<rparr>\<rparr>"

definition parts_response :: "Part list \<Rightarrow> GenerateContentResponse" where
  "parts_response ps =
     \<lparr>resp_text = None, candidates = Some [\<lparr>content = Some \<lparr>parts = Some ps\<rparr>\<rparr>]\<rparr>"

definition text_response :: "string \<Rightarrow> GenerateContentResponse" where
  "text_response t =
     \<lparr>resp_text = Some t,
      candidates = Some [\<lparr>content = Some \<lparr>parts = Some [text_part t]\<rparr>\<rparr>]\<rparr>"

text \<open>A reply whose only candidate carries no content, as for a blocked prompt.\<close>

definition blocked_response :: GenerateContentResponse where
  "blocked_response = \<lparr>resp_text = None, candidates = Some [\<lparr>content = None\<rparr>]\<rparr>"

text \<open>A provider that answers the script request with a text, the image request with
  \<open>img\<close> and both speech requests with \<open>aud\<close>.\<close>

definition demo_provider ::
  "GenerateContentResponse \<Rightarrow> GenerateContentResponse \<Rightarrow> request
     \<Rightarrow> js_error + GenerateContentResponse" where
  "demo_provider img aud r =
     (case config r of
        ScriptSchemaConfig \<Rightarrow> Inr (text_response ''{}'')
      | ImageConfig ratio sz \<Rightarrow> Inr img
      | SpeechConfig voices \<Rightarrow> Inr aud)"

definition demo_env :: "GenerateContentResponse \<Rightarrow> GenerateContentResponse \<Rightarrow> env" where
  "demo_env img aud =
     \<lparr>API_KEY = Some ''key'',
      generateContent = demo_provider img aud,
      JSON_parse = (\<lambda>t. Inr demo_script),
      atob = (\<lambda>b. Inr [82, 73, 70, 70]),
      decodeAudioData = (\<lambda>bs. Inr (AudioBuffer 60)),
      AudioContextClass = Some Suspended,
      Date_now = 1700000000000,
      audio_rejects_first = False\<rparr>"

definition sushi_env :: env where
  "sushi_env = demo_env (parts_response [inline_part ''iVBOR'']) (parts_response [inline_part ''UklG''])"

definition sushi_state :: app_state where
  "sushi_state = initial_state\<lparr>app_topic := ''The history of Sushi''\<rparr>"

text \<open>A session that holds a generated episode and an audio context.\<close>

definition ready_state :: app_state where
  "ready_state =
     initial_state
       \<lparr>app_topic := ''The history of Sushi'',
        loadingStage := COMPLETE,
        episode := Some \<lparr>episode_id = ''1'', script = demo_script,
                         coverImageBase64 = Some ''data:image/png;base64,iVBOR'',
                         audioBuffer = Some (AudioBuffer 60)\<rparr>,
        audioContextRef := Some Running\<rparr>"

text \<open>The playing flag and the paused offset that a handler left, or nothing when it
  raised; and the offset at which the current source was started.\<close>

definition playback_view :: "js_error + app_state \<Rightarrow> (bool \<times> real) option" where
  "playback_view r = (case r of Inl x \<Rightarrow> None | Inr s \<Rightarrow> Some (isPlaying s, pausedTimeRef s))"

definition started_at :: "js_error + app_state \<Rightarrow> real option" where
  "started_at r =
     (case r of
        Inl x \<Rightarrow> None
      | Inr s \<Rightarrow>
          (case sourceNodeRef s of
             None \<Rightarrow> None
           | Some i \<Rightarrow> if i < length (nodes s) then started (nodes s ! i) else None))"

text \<open>
  Arithmetic in which no result needs rounding. IEEE doubles behave so on the integer
  clock readings of the sessions below, whose sums and differences are doubles themselves.
\<close>

definition no_rounding :: "real \<Rightarrow> real" where
  "no_rounding x = x"

text \<open>A script without dialogue.\<close>

definition empty_script :: PodcastScript where
  "empty_script = \<lparr>title = ''Silence'', topic = ''Nothing'', dialogue = []\<rparr>"

text \<open>A script of one entry whose text holds a newline.\<close>

definition two_line_script :: PodcastScript where
  "two_line_script =
     \<lparr>title = ''Greeting'', topic = ''Greetings'',
      dialogue = [\<lparr>speaker = Host, text = ''Hello'' @ nl @ ''world''\<rparr>]\<rparr>"

text \<open>The image succeeds and the speech reply carries a text part only.\<close>

definition silent_audio_env :: env where
  "silent_audio_env =
     demo_env (parts_response [inline_part ''iVBOR'']) (parts_response [text_part ''sorry''])"

text \<open>The image reply is a blocked one, or one with an empty candidate list.\<close>

definition blocked_env :: env where
  "blocked_env = demo_env blocked_response (parts_response [inline_part ''UklG''])"

definition no_candidates_env :: env where
  "no_candidates_env =
     demo_env \<lparr>resp_text = None, candidates = Some []\<rparr> (parts_response [inline_part ''UklG''])"

text \<open>Replies whose inline payload comes second, after a text part.\<close>

definition late_payload_response :: GenerateContentResponse where
  "late_payload_response = parts_response [text_part ''Here you are'', inline_part ''UklG'']"

definition late_payload_env :: env where
  "late_payload_env = demo_env late_payload_response late_payload_response"

text \<open>A session that plays its second source from a stored offset of 5: the first source
  was stopped at that offset and its completion callback has not run.\<close>

definition playing_state :: app_state where
  "playing_state =
     ready_state
       \<lparr>isPlaying := True, sourceNodeRef := Some 1, startTimeRef := 10, pausedTimeRef := 5,
        nodes :=
          [\<lparr>src_buffer = Some (AudioBuffer 60), outputs = [Destination], started = Some 0,
            stopped = True, has_onended = True\<rparr>,
           \<lparr>src_buffer = Some (AudioBuffer 60), outputs = [Destination], started = Some 5,
            stopped = False, has_onended = True\<rparr>]\<rparr>"

text \<open>A freshly mounted visualizer, a playing source, and a browser that has a canvas and
  whose \<^verbatim>\<open>connect\<close> raises on an existing edge.\<close>

definition initial_vis :: vis_state where
  "initial_vis =
     \<lparr>analyserRef = None, animationRef = 0, analysers_created = 0, edges = [],
      frames_requested = 0, frames_cancelled = [], canvas = []\<rparr>"

definition demo_props :: vis_props where
  "demo_props = \<lparr>audioContext = Some Running, sourceNode = Some 1, playing = True\<rparr>"

definition strict_env :: vis_env where
  "strict_env =
     \<lparr>has_canvas = True, has_ctx2d = True, connect = strict_connect,
      frequency_data = [0, 128, 255]\<rparr>"

text \<open>The lines of a text: what \<^verbatim>\<open>split\<close> at the newline character returns.\<close>

fun lines_of :: "string \<Rightarrow> string list" where
  "lines_of [] = [] # []"
| "lines_of (c # cs) =
     (if c = CHR 0x0A then [] # lines_of cs
      else (case lines_of cs of [] \<Rightarrow> [c] # [] | l # ls \<Rightarrow> (c # l) # ls))"

section \<open>Evaluation rules for concrete sessions\<close>

lemmas toggle_eval =
  playback_view_def started_at_def and_then_def source_ended_def onended_def
  ready_state_def initial_state_def togglePlayback_def playable_def
  node_start_def createBufferSource_def try_stop_def node_stop_def no_rounding_def Let_def

lemmas demo_eval =
  sushi_env_def sushi_state_def silent_audio_env_def blocked_env_def no_candidates_env_def
  late_payload_env_def late_payload_response_def demo_env_def demo_provider_def parts_response_def
  inline_part_def text_part_def text_response_def blocked_response_def demo_script_def
  initial_state_def undefined_read_def sq_def

lemmas stage_eval =
  generateScript_def generateCoverArt_def generateAudio_def getAiClient_def falsy_def
  script_request_def art_request_def tts_request_def extract_image_def first_part_data_def
  to_bytes_def Let_def

lemmas run_eval =
  handleGenerate_def handleGenerate_run_def provider_calls_def blank_def is_space_def
  begin_generate_def initAudio_def fail_generate_def promise_all_def

section \<open>Playback\<close>

lemma playable_cases:
  "playable s = None \<longleftrightarrow>
     episode s = None \<or> (\<exists>ep. episode s = Some ep \<and> audioBuffer ep = None) \<or>
     audioContextRef s = None"
  by (auto simp: playable_def split: option.splits)

lemma playable_cong:
  "episode s' = episode s \<Longrightarrow> audioContextRef s' = audioContextRef s \<Longrightarrow> playable s' = playable s"
  by (simp add: playable_def split: option.splits)

lemma try_stop_frame:
  "episode (try_stop i s) = episode s"
  "audioContextRef (try_stop i s) = audioContextRef s"
  "isPlaying (try_stop i s) = isPlaying s"
  "pausedTimeRef (try_stop i s) = pausedTimeRef s"
  "startTimeRef (try_stop i s) = startTimeRef s"
  "sourceNodeRef (try_stop i s) = sourceNodeRef s"
  "error (try_stop i s) = error s"
  "loadingStage (try_stop i s) = loadingStage s"
  "app_topic (try_stop i s) = app_topic s"
  "length (nodes (try_stop i s)) = length (nodes s)"
  by (simp_all add: try_stop_def split: sum.splits)

text \<open>The play branch, in closed form: it succeeds exactly because the stored offset is
  not negative.\<close>

lemma play_step:
  assumes "playable s = Some b" and "\<not> isPlaying s" and "0 \<le> pausedTimeRef s"
  shows "togglePlayback rnd t s =
           Inr (s\<lparr>startTimeRef := t, sourceNodeRef := Some (length (nodes s)),
                  isPlaying := True,
                  nodes := nodes s @
                    [\<lparr>src_buffer = Some b, outputs = [Destination],
                      started = Some (pausedTimeRef s), stopped = False,
                      has_onended = True\<rparr>]\<rparr>)"
  using assms by (simp add: togglePlayback_def node_start_def createBufferSource_def Let_def)

lemma source_ended_resets:
  assumes "i < length (nodes s)" and "has_onended (nodes s ! i)"
  shows "\<not> isPlaying (source_ended i s) \<and> pausedTimeRef (source_ended i s) = 0"
  using assms by (simp add: source_ended_def onended_def)

text \<open>
  What a play and a pause do to the offset, and what the \<^verbatim>\<open>ended\<close> event of the stopped
  source then does. In a session with a decoded buffer, an audio context and a stored
  offset that is not negative, a toggle while paused (at clock reading \<open>t1\<close>) and a second
  toggle (at \<open>t2\<close>) leave the session paused with the stored offset plus the elapsed time
  \<open>t2 - t1\<close>, both operations rounded; the event dispatched on the source that the pause
  stopped then sets the offset to zero.
\<close>

lemma pause_then_ended:
  assumes "playable s = Some b" and "\<not> isPlaying s" and "0 \<le> pausedTimeRef s"
  shows "\<exists>s1 s2. togglePlayback rnd t1 s = Inr s1 \<and> isPlaying s1 \<and> startTimeRef s1 = t1 \<and>
           sourceNodeRef s1 = Some (length (nodes s)) \<and>
           togglePlayback rnd t2 s1 = Inr s2 \<and> \<not> isPlaying s2 \<and>
           pausedTimeRef s2 = rnd (pausedTimeRef s + rnd (t2 - t1)) \<and>
           stopped (nodes s2 ! length (nodes s)) \<and>
           pausedTimeRef (source_ended (length (nodes s)) s2) = 0"
proof -
  let ?n = "\<lparr>src_buffer = Some b, outputs = [Destination],
             started = Some (pausedTimeRef s), stopped = False, has_onended = True\<rparr>"
  let ?s1 = "s\<lparr>startTimeRef := t1, sourceNodeRef := Some (length (nodes s)),
                isPlaying := True, nodes := nodes s @ [?n]\<rparr>"
  let ?s2 = "(try_stop (length (nodes s)) ?s1)
               \<lparr>isPlaying := False,
                pausedTimeRef := rnd (pausedTimeRef ?s1 + rnd (t2 - startTimeRef ?s1))\<rparr>"
  have first: "togglePlayback rnd t1 s = Inr ?s1"
    by (rule play_step [OF assms])
  have "playable ?s1 = playable s"
    by (rule playable_cong) simp_all
  then have "playable ?s1 = Some b"
    using assms(1) by simp
  then have second: "togglePlayback rnd t2 ?s1 = Inr ?s2"
    by (simp add: togglePlayback_def)
  have stop: "nodes (try_stop (length (nodes s)) ?s1) = nodes s @ [?n\<lparr>stopped := True\<rparr>]"
    by (simp add: try_stop_def node_stop_def)
  have st: "stopped (nodes ?s2 ! length (nodes s))"
    by (simp add: stop)
  have ended: "pausedTimeRef (source_ended (length (nodes s)) ?s2) = 0"
    by (simp add: source_ended_def onended_def stop)
  show ?thesis
    apply (rule exI [of _ ?s1], rule exI [of _ ?s2])
    using first second st ended by simp
qed

text \<open>
  Claim C1 fails on the code. From the session \<open>ready_state\<close> (offset 0), play at 10 and
  pause at 13 leave the session paused with the offset \<open>13 - 10\<close>, rounded, which is 3 in
  doubles: so far the claim holds. The pause has called \<^verbatim>\<open>stop()\<close> on source 0, whose
  \<^verbatim>\<open>onended\<close> handler is unconditional; when the browser dispatches \<^verbatim>\<open>ended\<close> on it the
  offset is 0, so the value does not persist, and the next play starts the new source at 0
  and not where playback left off.
\<close>

theorem C1_paused_offset_does_not_persist:
  "playback_view (and_then (togglePlayback rnd 10 ready_state) (togglePlayback rnd 13)) =
     Some (False, rnd (0 + rnd (13 - 10))) \<and>
   playback_view
     (map_sum id (source_ended 0)
        (and_then (togglePlayback rnd 10 ready_state) (togglePlayback rnd 13))) =
     Some (False, 0) \<and>
   playback_view
     (and_then (togglePlayback no_rounding 10 ready_state) (togglePlayback no_rounding 13)) =
     Some (False, 3) \<and>
   started_at
     (and_then
        (map_sum id (source_ended 0)
           (and_then (togglePlayback no_rounding 10 ready_state) (togglePlayback no_rounding 13)))
        (togglePlayback no_rounding 20)) =
     Some 0"
  by (simp add: toggle_eval)

text \<open>
  Claim C6. When playback was started by a toggle and the source then reports completion,
  the handler installed on that source runs: the playing flag becomes false and the paused
  offset becomes zero.
\<close>

theorem C6_completion_resets_playback:
  assumes "playable s = Some b" and "\<not> isPlaying s" and "0 \<le> pausedTimeRef s"
  shows "\<exists>s1 i. togglePlayback rnd t s = Inr s1 \<and> isPlaying s1 \<and> sourceNodeRef s1 = Some i \<and>
           source_ended i s1 = onended s1 \<and>
           \<not> isPlaying (source_ended i s1) \<and> pausedTimeRef (source_ended i s1) = 0"
proof -
  let ?s1 = "s\<lparr>startTimeRef := t, sourceNodeRef := Some (length (nodes s)),
                isPlaying := True,
                nodes := nodes s @
                  [\<lparr>src_buffer = Some b, outputs = [Destination],
                    started = Some (pausedTimeRef s), stopped = False,
                    has_onended = True\<rparr>]\<rparr>"
  have first: "togglePlayback rnd t s = Inr ?s1"
    by (rule play_step [OF assms])
  have installed: "length (nodes s) < length (nodes ?s1) \<and> has_onended (nodes ?s1 ! length (nodes s))"
    by simp
  then have same: "source_ended (length (nodes s)) ?s1 = onended ?s1"
    by (simp add: source_ended_def)
  have reset: "\<not> isPlaying (source_ended (length (nodes s)) ?s1) \<and>
               pausedTimeRef (source_ended (length (nodes s)) ?s1) = 0"
    using installed by (intro source_ended_resets) simp_all
  show ?thesis
    apply (rule exI [of _ ?s1], rule exI [of _ "length (nodes s)"])
    using first same reset by simp
qed

theorem C6_completion_resets_playback_witness:
  "playable ready_state = Some (AudioBuffer 60) \<and> \<not> isPlaying ready_state \<and>
   0 \<le> pausedTimeRef ready_state \<and>
   (\<exists>s1 i. togglePlayback no_rounding 7 ready_state = Inr s1 \<and> isPlaying s1 \<and>
      sourceNodeRef s1 = Some i \<and> source_ended i s1 = onended s1 \<and>
      \<not> isPlaying (source_ended i s1) \<and> pausedTimeRef (source_ended i s1) = 0)"
proof -
  have h1: "playable ready_state = Some (AudioBuffer 60)"
    by (simp add: ready_state_def initial_state_def playable_def)
  have h2: "\<not> isPlaying ready_state"
    by (simp add: ready_state_def initial_state_def)
  have h3: "0 \<le> pausedTimeRef ready_state"
    by (simp add: ready_state_def initial_state_def)
  from C6_completion_resets_playback [OF h1 h2 h3, of no_rounding 7] h1 h2 h3
  show ?thesis by blast
qed

text \<open>
  Claim C8. Without an episode, without a decoded buffer in the episode, or without an
  audio context, \<^verbatim>\<open>togglePlayback\<close> returns the state it was given: no source node is
  created or stopped, and the playing flag, the paused offset and the segment start time
  are unchanged.
\<close>

theorem C8_toggle_without_buffer_is_noop:
  assumes "episode s = None \<or> (\<exists>ep. episode s = Some ep \<and> audioBuffer ep = None) \<or>
           audioContextRef s = None"
  shows "togglePlayback rnd now s = Inr s"
  using assms playable_cases [of s] by (simp add: togglePlayback_def)

theorem C8_toggle_without_buffer_is_noop_witness:
  "episode initial_state = None \<and> togglePlayback no_rounding 4 initial_state = Inr initial_state \<and>
   audioContextRef (ready_state\<lparr>audioContextRef := None\<rparr>) = None \<and>
   togglePlayback no_rounding 4 (ready_state\<lparr>audioContextRef := None\<rparr>) =
     Inr (ready_state\<lparr>audioContextRef := None\<rparr>)"
proof -
  have h1: "episode initial_state = None"
    by (simp add: initial_state_def)
  have h2: "audioContextRef (ready_state\<lparr>audioContextRef := None\<rparr>) = None"
    by simp
  from h1 have a: "togglePlayback no_rounding 4 initial_state = Inr initial_state"
    by (intro C8_toggle_without_buffer_is_noop) simp
  from h2 have b: "togglePlayback no_rounding 4 (ready_state\<lparr>audioContextRef := None\<rparr>) =
      Inr (ready_state\<lparr>audioContextRef := None\<rparr>)"
    by (intro C8_toggle_without_buffer_is_noop) simp
  from h1 h2 a b show ?thesis by simp
qed

section \<open>Generation runs\<close>

lemma generateScript_calls:
  "snd (generateScript e tp) = Inr scr \<Longrightarrow> fst (generateScript e tp) = [script_request tp]"
  by (auto simp: generateScript_def Let_def split: sum.splits if_splits)

lemma generateCoverArt_calls:
  "snd (generateCoverArt e ti tp) = Inr c \<Longrightarrow> fst (generateCoverArt e ti tp) = [art_request ti tp]"
  by (auto simp: generateCoverArt_def Let_def split: sum.splits if_splits)

lemma generateAudio_calls:
  "snd (generateAudio e scr) = Inr b \<Longrightarrow>
   fst (generateAudio e scr) = [tts_request scr ''Nova'', tts_request scr ''Kore'']"
  by (auto simp: generateAudio_def Let_def split: sum.splits if_splits)

lemma begin_generate_frame:
  "episode (begin_generate s) = None"
  "error (begin_generate s) = None"
  "isPlaying (begin_generate s) = False"
  "pausedTimeRef (begin_generate s) = pausedTimeRef s"
  "startTimeRef (begin_generate s) = startTimeRef s"
  "sourceNodeRef (begin_generate s) = sourceNodeRef s"
  "audioContextRef (begin_generate s) = audioContextRef s"
  "loadingStage (begin_generate s) = loadingStage s"
  "length (nodes (begin_generate s)) = length (nodes s)"
  by (simp_all add: begin_generate_def Let_def try_stop_frame split: option.splits)

lemma initAudio_frame:
  assumes "initAudio e s = Inr s1"
  shows "episode s1 = episode s" "error s1 = error s" "isPlaying s1 = isPlaying s"
    "pausedTimeRef s1 = pausedTimeRef s" "startTimeRef s1 = startTimeRef s"
    "sourceNodeRef s1 = sourceNodeRef s" "nodes s1 = nodes s" "audioContextRef s1 \<noteq> None"
  using assms by (auto simp: initAudio_def split: option.splits)

lemma fail_generate_frame:
  "episode (fail_generate x s) = episode s"
  "error (fail_generate x s) \<noteq> None"
  "error (fail_generate x s) \<noteq> Some []"
  "loadingStage (fail_generate x s) = ERROR"
  "isPlaying (fail_generate x s) = isPlaying s"
  "pausedTimeRef (fail_generate x s) = pausedTimeRef s"
  "startTimeRef (fail_generate x s) = startTimeRef s"
  by (simp_all add: fail_generate_def)

text \<open>The shape of a run, by cases on where it stops.\<close>


lemma run_shape:
  assumes "\<not> blank (app_topic s)"
  shows "(\<exists>x pre base. snd (handleGenerate_run e s) = pre @ [fail_generate x base] \<and>
            (\<forall>st \<in> set (base # pre). episode st = None \<and> pausedTimeRef st = pausedTimeRef s \<and>
                 startTimeRef st = startTimeRef s \<and> \<not> isPlaying st)) \<or>
         (\<exists>scr cover buf pre base.
            snd (generateScript e (app_topic s)) = Inr scr \<and>
            snd (generateCoverArt e (title scr) (topic scr)) = Inr cover \<and>
            snd (generateAudio e scr) = Inr buf \<and>
            snd (handleGenerate_run e s) =
              pre @ [base\<lparr>episode := Some \<lparr>episode_id = toString (Date_now e), script = scr,
                                   coverImageBase64 = Some cover, audioBuffer = Some buf\<rparr>,
                           loadingStage := COMPLETE\<rparr>] \<and>
            fst (handleGenerate_run e s) =
              fst (generateScript e (app_topic s)) @ fst (generateCoverArt e (title scr) (topic scr)) @
              fst (generateAudio e scr) \<and>
            audioContextRef base \<noteq> None \<and>
            (\<forall>st \<in> set (base # pre). episode st = None \<and> pausedTimeRef st = pausedTimeRef s \<and>
                 startTimeRef st = startTimeRef s \<and> \<not> isPlaying st))"
proof (cases "initAudio e (begin_generate s)")
  case (Inl x)
  then show ?thesis using assms
    by (intro disjI1 exI[of _ x] exI[of _ "[begin_generate s]"] exI[of _ "begin_generate s"])
       (simp add: handleGenerate_run_def Let_def begin_generate_frame)
next
  case (Inr s1)
  note f = initAudio_frame[OF Inr] begin_generate_frame
  let ?s0 = "begin_generate s"
  let ?s2 = "s1\<lparr>loadingStage := WRITING_SCRIPT\<rparr>"
  let ?s4 = "s1\<lparr>loadingStage := SYNTHESIZING_AUDIO\<rparr>"
  show ?thesis
  proof (cases "snd (generateScript e (app_topic s))")
    case (Inl x)
    then show ?thesis using assms Inr
      by (intro disjI1 exI[of _ x] exI[of _ "[?s0, ?s2]"] exI[of _ ?s2])
         (simp add: handleGenerate_run_def Let_def f)
  next
    case scr: (Inr scr)
    obtain ctx where ctx: "audioContextRef s1 = Some ctx" using f(8) by auto
    show ?thesis
    proof (cases "promise_all (audio_rejects_first e) (snd (generateCoverArt e (title scr) (topic scr))) (snd (generateAudio e scr))")
      case (Inl x)
      then show ?thesis using assms Inr scr ctx
        by (intro disjI1 exI[of _ x] exI[of _ "[?s0, ?s2, ?s4]"] exI[of _ ?s4])
           (simp add: handleGenerate_run_def Let_def f)
    next
      case ok: (Inr pr)
      obtain cover buf where pr: "pr = (cover, buf)" by (cases pr)
      from ok pr have art: "snd (generateCoverArt e (title scr) (topic scr)) = Inr cover"
        and aud: "snd (generateAudio e scr) = Inr buf"
        by (auto simp: promise_all_def split: sum.splits)
      show ?thesis using assms Inr scr ctx ok pr art aud
        by (intro disjI2 exI[of _ scr] exI[of _ cover] exI[of _ buf] exI[of _ "[?s0, ?s2, ?s4]"] exI[of _ ?s4])
           (simp add: handleGenerate_run_def Let_def f)
    qed
  qed
qed

lemma run_first_state:
  "\<not> blank (app_topic s) \<Longrightarrow> hd (snd (handleGenerate_run e s)) = begin_generate s"
  by (simp add: handleGenerate_run_def Let_def split: sum.splits option.splits prod.splits)

lemma run_cases [consumes 1, case_names failed succeeded]:
  assumes "\<not> blank (app_topic s)"
  obtains x pre base where
      "snd (handleGenerate_run e s) = pre @ [fail_generate x base]"
      "\<forall>st \<in> set (base # pre). episode st = None \<and> pausedTimeRef st = pausedTimeRef s \<and>
          startTimeRef st = startTimeRef s \<and> \<not> isPlaying st"
  | scr cover buf pre base where
      "snd (generateScript e (app_topic s)) = Inr scr"
      "snd (generateCoverArt e (title scr) (topic scr)) = Inr cover"
      "snd (generateAudio e scr) = Inr buf"
      "snd (handleGenerate_run e s) =
         pre @ [base\<lparr>episode := Some \<lparr>episode_id = toString (Date_now e), script = scr,
                              coverImageBase64 = Some cover, audioBuffer = Some buf\<rparr>,
                      loadingStage := COMPLETE\<rparr>]"
      "fst (handleGenerate_run e s) =
         fst (generateScript e (app_topic s)) @
         fst (generateCoverArt e (title scr) (topic scr)) @ fst (generateAudio e scr)"
      "audioContextRef base \<noteq> None"
      "\<forall>st \<in> set (base # pre). episode st = None \<and> pausedTimeRef st = pausedTimeRef s \<and>
          startTimeRef st = startTimeRef s \<and> \<not> isPlaying st"
  using run_shape [OF assms, of e] by blast

lemma completed_run_requests:
  assumes "\<not> blank (app_topic s)" and "loadingStage (handleGenerate e s) = COMPLETE"
  shows "\<exists>scr. snd (generateScript e (app_topic s)) = Inr scr \<and>
           provider_calls e s =
             [script_request (app_topic s), art_request (title scr) (topic scr),
              tts_request scr ''Nova'', tts_request scr ''Kore'']"
  using assms(1)
proof (cases rule: run_cases [where e = e])
  case (failed x pre base)
  then have "loadingStage (handleGenerate e s) = ERROR"
    by (simp add: handleGenerate_def fail_generate_frame)
  with assms(2) show ?thesis by simp
next
  case (succeeded scr cover buf pre base)
  have "provider_calls e s =
             [script_request (app_topic s), art_request (title scr) (topic scr),
              tts_request scr ''Nova'', tts_request scr ''Kore'']"
    unfolding provider_calls_def succeeded(5)
    by (simp add: generateScript_calls [OF succeeded(1)]
          generateCoverArt_calls [OF succeeded(2)] generateAudio_calls [OF succeeded(3)])
  with succeeded(1) show ?thesis by blast
qed

lemma begin_generate_stops:
  assumes "sourceNodeRef s = Some i" and "i < length (nodes s)" and "started (nodes s ! i) \<noteq> None"
  shows "stopped (nodes (begin_generate s) ! i)"
  using assms by (auto simp: begin_generate_def Let_def try_stop_def node_stop_def)

lemma in_snoc: "st \<in> set (pre @ [y]) \<Longrightarrow> st \<in> set (base # pre) \<or> st = y"
  by auto

lemma run_frame:
  assumes "\<not> blank (app_topic s)" and "st \<in> set (snd (handleGenerate_run e s))"
  shows "pausedTimeRef st = pausedTimeRef s \<and> startTimeRef st = startTimeRef s"
  using assms(1)
proof (cases rule: run_cases [where e = e])
  case (failed x pre base)
  from assms(2) have "st \<in> set (pre @ [fail_generate x base])"
    unfolding failed(1) .
  then have "st \<in> set (base # pre) \<or> st = fail_generate x base"
    by (rule in_snoc)
  then show ?thesis
  proof
    assume "st \<in> set (base # pre)"
    from bspec [OF failed(2) this] show ?thesis by simp
  next
    assume st: "st = fail_generate x base"
    have "base \<in> set (base # pre)" by simp
    from bspec [OF failed(2) this]
    have "pausedTimeRef base = pausedTimeRef s \<and> startTimeRef base = startTimeRef s"
      by simp
    then show ?thesis unfolding st by (simp add: fail_generate_frame)
  qed
next
  case (succeeded scr cover buf pre base)
  let ?f = "base\<lparr>episode := Some \<lparr>episode_id = toString (Date_now e), script = scr,
                              coverImageBase64 = Some cover, audioBuffer = Some buf\<rparr>,
                      loadingStage := COMPLETE\<rparr>"
  from assms(2) have "st \<in> set (pre @ [?f])"
    unfolding succeeded(4) .
  then have "st \<in> set (base # pre) \<or> st = ?f"
    by (rule in_snoc)
  then show ?thesis
  proof
    assume "st \<in> set (base # pre)"
    from bspec [OF succeeded(7) this] show ?thesis by simp
  next
    assume st: "st = ?f"
    have "base \<in> set (base # pre)" by simp
    from bspec [OF succeeded(7) this]
    have "pausedTimeRef base = pausedTimeRef s \<and> startTimeRef base = startTimeRef s"
      by simp
    then show ?thesis unfolding st by simp
  qed
qed

lemma play_after_run:
  assumes "\<not> blank (app_topic s)"
   and ok: "loadingStage (handleGenerate e s) = COMPLETE" and nonneg: "0 \<le> pausedTimeRef s"
  shows "\<exists>s2. togglePlayback rnd now (handleGenerate e s) = Inr s2 \<and> isPlaying s2 \<and>
                  startTimeRef s2 = now \<and>
                  started (last (nodes s2)) = Some (pausedTimeRef s)"
    using assms(1)
  proof (cases rule: run_cases [where e = e])
    case (failed x pre base)
    then have "loadingStage (handleGenerate e s) = ERROR"
      by (simp add: handleGenerate_def fail_generate_frame)
    with ok show ?thesis by simp
  next
    case (succeeded scr cover buf pre base)
    let ?f = "handleGenerate e s"
    have f: "?f = base\<lparr>episode := Some \<lparr>episode_id = toString (Date_now e), script = scr,
                                   coverImageBase64 = Some cover, audioBuffer = Some buf\<rparr>,
                           loadingStage := COMPLETE\<rparr>"
      by (simp add: handleGenerate_def succeeded(4))
    have base: "pausedTimeRef base = pausedTimeRef s" "\<not> isPlaying base"
      using succeeded(7) by simp_all
    obtain ctx where ctx: "audioContextRef base = Some ctx"
      using succeeded(6) by blast
    have p: "playable ?f = Some buf" by (simp add: f playable_def ctx)
    have np: "\<not> isPlaying ?f" using base by (simp add: f)
    have off: "pausedTimeRef ?f = pausedTimeRef s" using base by (simp add: f)
    have nn: "0 \<le> pausedTimeRef ?f" using off nonneg by simp
    show ?thesis
      by (simp add: play_step [OF p np nn] off)
  qed

text \<open>
  Claim C2. When the topic is not blank and the script stage fails, or the script stage
  succeeds and the cover-art stage or the audio stage fails (an empty audio payload
  included), the run ends with no episode, an error message that is not empty and the
  stage marker \<open>ERROR\<close>; and no state along the run holds an episode.
\<close>

theorem C2_failed_stage_discards_episode:
  assumes "\<not> blank (app_topic s)"
    and "(\<exists>x. snd (generateScript e (app_topic s)) = Inl x) \<or>
         (\<exists>scr x. snd (generateScript e (app_topic s)) = Inr scr \<and>
            (snd (generateCoverArt e (title scr) (topic scr)) = Inl x \<or>
             snd (generateAudio e scr) = Inl x))"
  shows "episode (handleGenerate e s) = None \<and>
         (\<exists>m. error (handleGenerate e s) = Some m \<and> m \<noteq> []) \<and>
         loadingStage (handleGenerate e s) = ERROR \<and>
         (\<forall>st \<in> set (snd (handleGenerate_run e s)). episode st = None)"
  using assms(1)
proof (cases rule: run_cases [where e = e])
  case (failed x pre base)
  have last: "handleGenerate e s = fail_generate x base"
    by (simp add: handleGenerate_def failed(1))
  have base: "episode base = None" and pre: "\<forall>st \<in> set pre. episode st = None"
    using failed(2) by simp_all
  have "\<forall>st \<in> set (snd (handleGenerate_run e s)). episode st = None"
    unfolding failed(1) using base pre by (simp add: fail_generate_frame)
  moreover have "\<exists>m. error (fail_generate x base) = Some m \<and> m \<noteq> []"
    by (simp add: fail_generate_def)
  ultimately show ?thesis
    using base by (simp add: last fail_generate_frame)
next
  case (succeeded scr cover buf pre base)
  with assms(2) show ?thesis by auto
qed

theorem C2_failed_stage_discards_episode_witness:
  "\<not> blank (app_topic ready_state) \<and>
   episode ready_state \<noteq> None \<and>
   snd (generateScript silent_audio_env (app_topic ready_state)) = Inr demo_script \<and>
   snd (generateCoverArt silent_audio_env (title demo_script) (topic demo_script)) =
     Inr ''data:image/png;base64,iVBOR'' \<and>
   snd (generateAudio silent_audio_env demo_script) = Inl (Error ''No audio generated'') \<and>
   episode (handleGenerate silent_audio_env ready_state) = None \<and>
   error (handleGenerate silent_audio_env ready_state) = Some ''No audio generated'' \<and>
   loadingStage (handleGenerate silent_audio_env ready_state) = ERROR \<and>
   map episode (snd (handleGenerate_run silent_audio_env ready_state)) = [None, None, None, None]"
proof -
  have h1: "\<not> blank (app_topic ready_state)"
    by (simp add: ready_state_def initial_state_def blank_def is_space_def)
  have h2: "snd (generateScript silent_audio_env (app_topic ready_state)) = Inr demo_script"
    by (simp add: ready_state_def demo_eval stage_eval)
  have h3: "snd (generateCoverArt silent_audio_env (title demo_script) (topic demo_script)) =
     Inr ''data:image/png;base64,iVBOR''"
    by (simp add: demo_eval stage_eval)
  have h4: "snd (generateAudio silent_audio_env demo_script) = Inl (Error ''No audio generated'')"
    by (simp add: demo_eval stage_eval)
  have h5: "error (handleGenerate silent_audio_env ready_state) = Some ''No audio generated''"
    by (simp add: ready_state_def demo_eval stage_eval run_eval)
  have h6: "episode ready_state \<noteq> None"
    by (simp add: ready_state_def)
  have h7: "map episode (snd (handleGenerate_run silent_audio_env ready_state)) =
      [None, None, None, None]"
    by (simp add: ready_state_def demo_eval stage_eval run_eval)
  have fails: "(\<exists>x. snd (generateScript silent_audio_env (app_topic ready_state)) = Inl x) \<or>
         (\<exists>scr x. snd (generateScript silent_audio_env (app_topic ready_state)) = Inr scr \<and>
            (snd (generateCoverArt silent_audio_env (title scr) (topic scr)) = Inl x \<or>
             snd (generateAudio silent_audio_env scr) = Inl x))"
    using h2 h4 by blast
  from C2_failed_stage_discards_episode [OF h1 fails] h1 h2 h3 h4 h5 h6 h7
  show ?thesis by blast
qed

text \<open>
  Claim C3 fails on the code. The successful run of the end-to-end scenario issues four
  requests to the provider: one for the script, one for the image and two for speech, the
  first with the guest voice \<open>Nova\<close> (its reply is never read) and the second with \<open>Kore\<close>.
\<close>

theorem C3_successful_run_issues_four_requests:
  "loadingStage (handleGenerate sushi_env sushi_state) = COMPLETE \<and>
   length (provider_calls sushi_env sushi_state) = 4 \<and>
   map model (provider_calls sushi_env sushi_state) =
     [''gemini-3-pro-preview'', ''gemini-3-pro-image-preview'',
      ''gemini-2.5-flash-preview-tts'', ''gemini-2.5-flash-preview-tts''] \<and>
   map config (drop 2 (provider_calls sushi_env sushi_state)) =
     [SpeechConfig [(Host, ''Fenrir''), (Guest, ''Nova'')],
      SpeechConfig [(Host, ''Fenrir''), (Guest, ''Kore'')]]"
  by (simp add: demo_eval stage_eval run_eval)

text \<open>
  Claim C4. A run of \<^verbatim>\<open>handleGenerate\<close> on a topic that is not blank starts by clearing
  the episode, the error and the playing flag and by stopping the current source when it
  was started; no state along the run changes the paused offset or the segment start
  time. Hence, when the run succeeds and no completion callback has run, the next toggle
  starts the new episode's source at the offset the previous episode left behind.
\<close>

theorem C4_generation_keeps_playback_offset:
  assumes "\<not> blank (app_topic s)"
  shows "hd (snd (handleGenerate_run e s)) = begin_generate s \<and>
         episode (begin_generate s) = None \<and> error (begin_generate s) = None \<and>
         \<not> isPlaying (begin_generate s) \<and>
         (\<forall>i. sourceNodeRef s = Some i \<and> i < length (nodes s) \<and> started (nodes s ! i) \<noteq> None
              \<longrightarrow> stopped (nodes (begin_generate s) ! i)) \<and>
         (\<forall>st \<in> set (snd (handleGenerate_run e s)).
            pausedTimeRef st = pausedTimeRef s \<and> startTimeRef st = startTimeRef s) \<and>
         (loadingStage (handleGenerate e s) = COMPLETE \<and> 0 \<le> pausedTimeRef s \<longrightarrow>
            (\<exists>s2. togglePlayback rnd now (handleGenerate e s) = Inr s2 \<and> isPlaying s2 \<and>
                  startTimeRef s2 = now \<and>
                  started (last (nodes s2)) = Some (pausedTimeRef s)))"
proof (intro conjI)
  show "hd (snd (handleGenerate_run e s)) = begin_generate s"
    by (rule run_first_state [OF assms])
  show "episode (begin_generate s) = None" "error (begin_generate s) = None"
    "\<not> isPlaying (begin_generate s)"
    by (simp_all add: begin_generate_frame)
  show "\<forall>i. sourceNodeRef s = Some i \<and> i < length (nodes s) \<and> started (nodes s ! i) \<noteq> None
              \<longrightarrow> stopped (nodes (begin_generate s) ! i)"
    using begin_generate_stops [of s] by blast
  show "\<forall>st \<in> set (snd (handleGenerate_run e s)).
            pausedTimeRef st = pausedTimeRef s \<and> startTimeRef st = startTimeRef s"
    using run_frame [OF assms] by blast
  show "loadingStage (handleGenerate e s) = COMPLETE \<and> 0 \<le> pausedTimeRef s \<longrightarrow>
            (\<exists>s2. togglePlayback rnd now (handleGenerate e s) = Inr s2 \<and> isPlaying s2 \<and>
                  startTimeRef s2 = now \<and>
                  started (last (nodes s2)) = Some (pausedTimeRef s))"
    using play_after_run [OF assms] by blast
qed

theorem C4_generation_keeps_playback_offset_witness:
  "\<not> blank (app_topic playing_state) \<and>
   sourceNodeRef playing_state = Some 1 \<and> 1 < length (nodes playing_state) \<and>
   started (nodes playing_state ! 1) \<noteq> None \<and> \<not> stopped (nodes playing_state ! 1) \<and>
   stopped (nodes (begin_generate playing_state) ! 1) \<and>
   loadingStage (handleGenerate sushi_env playing_state) = COMPLETE \<and>
   pausedTimeRef playing_state = 5 \<and>
   pausedTimeRef (handleGenerate sushi_env playing_state) = 5 \<and>
   (\<exists>s2. togglePlayback no_rounding 20 (handleGenerate sushi_env playing_state) = Inr s2 \<and> isPlaying s2 \<and>
         started (last (nodes s2)) = Some 5)"
proof -
  have h1: "\<not> blank (app_topic playing_state)"
    by (simp add: playing_state_def ready_state_def initial_state_def blank_def is_space_def)
  have h2: "sourceNodeRef playing_state = Some 1 \<and> 1 < length (nodes playing_state) \<and>
     started (nodes playing_state ! 1) \<noteq> None \<and> \<not> stopped (nodes playing_state ! 1)"
    by (simp add: playing_state_def)
  have h3: "loadingStage (handleGenerate sushi_env playing_state) = COMPLETE"
    by (simp add: playing_state_def ready_state_def demo_eval stage_eval run_eval
          try_stop_def node_stop_def)
  have h4: "pausedTimeRef playing_state = 5"
    by (simp add: playing_state_def)
  have h5: "handleGenerate sushi_env playing_state
              \<in> set (snd (handleGenerate_run sushi_env playing_state))"
    unfolding handleGenerate_def
    by (rule last_in_set) (simp add: handleGenerate_run_def Let_def split: sum.splits option.splits prod.splits)
  note main = C4_generation_keeps_playback_offset [OF h1, of sushi_env no_rounding 20]
  from main h2 have a: "stopped (nodes (begin_generate playing_state) ! 1)"
    by blast
  from main h5 h4 have b: "pausedTimeRef (handleGenerate sushi_env playing_state) = 5"
    by auto
  from main h3 h4 have c: "\<exists>s2. togglePlayback no_rounding 20 (handleGenerate sushi_env playing_state) = Inr s2 \<and>
      isPlaying s2 \<and> started (last (nodes s2)) = Some 5"
    by auto
  from h1 h2 h3 h4 a b c show ?thesis by blast
qed

text \<open>What the three stages do on a reply without the expected payload, where they do
  raise their own error.\<close>

lemma script_stage_no_text:
  assumes "getAiClient e = Inr ()" and "generateContent e (script_request tp) = Inr r"
    and "falsy (resp_text r)"
  shows "snd (generateScript e tp) = Inl (Error ''No script generated'')"
  using assms by (simp add: generateScript_def Let_def)

lemma image_stage_no_payload:
  assumes "getAiClient e = Inr ()" and "generateContent e (art_request ti tp) = Inr r"
    and "extract_image r = Inr d" and "falsy d"
  shows "snd (generateCoverArt e ti tp) = Inl (Error ''No image generated'')"
  using assms by (simp add: generateCoverArt_def Let_def)

lemma audio_stage_no_payload:
  assumes "getAiClient e = Inr ()" and "generateContent e (tts_request scr ''Nova'') = Inr r1"
    and "generateContent e (tts_request scr ''Kore'') = Inr r2"
    and "falsy (first_part_data r2)"
  shows "snd (generateAudio e scr) = Inl (Error ''No audio generated'')"
  using assms by (simp add: generateAudio_def Let_def)

text \<open>
  Claim C5 fails on the code at the image stage. A reply whose first candidate has no
  content, or whose candidate list is empty, holds no inline image payload, and
  \<^verbatim>\<open>generateCoverArt\<close> raises a TypeError on it, not its \<open>No image generated\<close> error.
\<close>

theorem C5_image_stage_raises_type_error:
  "snd (generateCoverArt blocked_env ''Sushi'' ''The history of Sushi'') =
     Inl (TypeError (undefined_read ''parts'')) \<and>
   snd (generateCoverArt no_candidates_env ''Sushi'' ''The history of Sushi'') =
     Inl (TypeError (undefined_read ''content'')) \<and>
   snd (generateCoverArt blocked_env ''Sushi'' ''The history of Sushi'') \<noteq>
     Inl (Error ''No image generated'') \<and>
   error (handleGenerate blocked_env sushi_state) =
     Some (undefined_read ''parts'')"
  by (simp add: demo_eval stage_eval run_eval)

text \<open>
  Claim C10. When the speech reply's first candidate has a first part without inline
  data, \<^verbatim>\<open>generateAudio\<close> raises \<open>No audio generated\<close> whatever the later parts and the
  other candidates hold; on the same reply the image stage, which scans the parts, returns
  the first inline payload that a later part holds.
\<close>

theorem C10_audio_reads_first_part_only:
  assumes "getAiClient e = Inr ()"
    and "generateContent e (tts_request scr ''Nova'') = Inr r1"
    and "generateContent e (tts_request scr ''Kore'') = Inr r2"
    and "candidates r2 = Some (c # cs)" and "content c = Some ct"
    and "parts ct = Some (p # ps)" and "inlineData p = None"
  shows "snd (generateAudio e scr) = Inl (Error ''No audio generated'') \<and>
         (\<forall>ti tp d. generateContent e (art_request ti tp) = Inr r2 \<and>
              scan_parts ps = Some d \<and> d \<noteq> [] \<longrightarrow>
              snd (generateCoverArt e ti tp) = Inr (''data:image/png;base64,'' @ d))"
proof -
  have "first_part_data r2 = None"
    using assms(4-7) by (simp add: first_part_data_def)
  then have "falsy (first_part_data r2)"
    by (simp add: falsy_def)
  then have audio: "snd (generateAudio e scr) = Inl (Error ''No audio generated'')"
    using assms(1-3) by (rule audio_stage_no_payload [rotated 3])
  have image: "snd (generateCoverArt e ti tp) = Inr (''data:image/png;base64,'' @ d)"
    if "generateContent e (art_request ti tp) = Inr r2" and "scan_parts ps = Some d" and "d \<noteq> []"
    for ti tp d
  proof -
    have "extract_image r2 = Inr (Some d)"
      using assms(4-7) that(2) by (simp add: extract_image_def)
    then show ?thesis
      using assms(1) that(1,3) by (simp add: generateCoverArt_def Let_def falsy_def)
  qed
  from audio image show ?thesis by blast
qed

theorem C10_audio_reads_first_part_only_witness:
  "getAiClient late_payload_env = Inr () \<and>
   generateContent late_payload_env (tts_request demo_script ''Nova'') = Inr late_payload_response \<and>
   generateContent late_payload_env (tts_request demo_script ''Kore'') = Inr late_payload_response \<and>
   candidates late_payload_response =
     Some [\<lparr>content = Some \<lparr>parts = Some [text_part ''Here you are'', inline_part ''UklG'']\<rparr>\<rparr>] \<and>
   inlineData (text_part ''Here you are'') = None \<and>
   scan_parts [inline_part ''UklG''] = Some ''UklG'' \<and>
   generateContent late_payload_env (art_request ''Sushi'' ''The history of Sushi'') =
     Inr late_payload_response \<and>
   snd (generateAudio late_payload_env demo_script) = Inl (Error ''No audio generated'') \<and>
   snd (generateCoverArt late_payload_env ''Sushi'' ''The history of Sushi'') =
     Inr ''data:image/png;base64,UklG''"
proof -
  have h1: "getAiClient late_payload_env = Inr ()"
    by (simp add: demo_eval getAiClient_def falsy_def)
  have h2: "generateContent late_payload_env (tts_request demo_script ''Nova'') =
      Inr late_payload_response"
    by (simp add: late_payload_env_def demo_env_def demo_provider_def tts_request_def)
  have h3: "generateContent late_payload_env (tts_request demo_script ''Kore'') =
      Inr late_payload_response"
    by (simp add: late_payload_env_def demo_env_def demo_provider_def tts_request_def)
  have h4: "candidates late_payload_response =
     Some [\<lparr>content = Some \<lparr>parts = Some [text_part ''Here you are'', inline_part ''UklG'']\<rparr>\<rparr>]"
    by (simp add: late_payload_response_def parts_response_def)
  have h5: "content \<lparr>content = Some \<lparr>parts = Some [text_part ''Here you are'', inline_part ''UklG'']\<rparr>\<rparr> =
      Some \<lparr>parts = Some [text_part ''Here you are'', inline_part ''UklG'']\<rparr>"
    by simp
  have h6: "parts \<lparr>parts = Some [text_part ''Here you are'', inline_part ''UklG'']\<rparr> =
      Some [text_part ''Here you are'', inline_part ''UklG'']"
    by simp
  have h7: "inlineData (text_part ''Here you are'') = None"
    by (simp add: text_part_def)
  have h8: "scan_parts [inline_part ''UklG''] = Some ''UklG''"
    by (simp add: inline_part_def)
  have h9: "generateContent late_payload_env (art_request ''Sushi'' ''The history of Sushi'') =
     Inr late_payload_response"
    by (simp add: late_payload_env_def demo_env_def demo_provider_def art_request_def)
  note main = C10_audio_reads_first_part_only [OF h1 h2 h3 h4 h5 h6 h7]
  from main have a: "snd (generateAudio late_payload_env demo_script) =
      Inl (Error ''No audio generated'')"
    by blast
  from main h8 h9 have b: "snd (generateCoverArt late_payload_env ''Sushi'' ''The history of Sushi'') =
     Inr ''data:image/png;base64,UklG''"
    by auto
  from h1 h2 h3 h4 h7 h8 h9 a b show ?thesis by blast
qed

section \<open>Rendering the script\<close>

lemma lines_of_nonempty: "lines_of cs \<noteq> []"
  by (induction cs) (auto split: list.splits)

lemma lines_of_single: "CHR 0x0A \<notin> set x \<Longrightarrow> lines_of x = [x]"
  by (induction x) auto

lemma lines_of_append:
  "CHR 0x0A \<notin> set x \<Longrightarrow> lines_of (x @ nl @ rest) = x # lines_of rest"
  by (induction x) (auto simp: nl_def)

lemma lines_of_join_sep:
  "sep = nl \<Longrightarrow> ls \<noteq> [] \<Longrightarrow> \<forall>l \<in> set ls. CHR 0x0A \<notin> set l \<Longrightarrow>
   lines_of (join sep ls) = ls"
proof (induction sep ls rule: join.induct)
  case (1 sep)
  then show ?case by simp
next
  case (2 sep x)
  then show ?case by (simp add: lines_of_single)
next
  case (3 sep x y ys)
  then show ?case by (simp add: lines_of_append)
qed

lemma lines_of_join:
  "ls \<noteq> [] \<Longrightarrow> \<forall>l \<in> set ls. CHR 0x0A \<notin> set l \<Longrightarrow> lines_of (join nl ls) = ls"
  by (rule lines_of_join_sep) simp_all

lemma render_line_no_newline:
  "CHR 0x0A \<notin> set (text l) \<Longrightarrow> CHR 0x0A \<notin> set (render_line l)"
  by (cases "speaker l") (simp_all add: render_line_def speaker_name_def)

lemma renderScript_turns:
  assumes "episode s = Some ep"
  shows "\<exists>ts. renderScript s = Some ts \<and> length ts = length (dialogue (script ep)) \<and>
           (\<forall>i < length ts. turn_key (ts ! i) = i \<and>
                label (ts ! i) = speaker_name (speaker (dialogue (script ep) ! i)) \<and>
                body (ts ! i) = text (dialogue (script ep) ! i))"
  using assms by (simp add: renderScript_def nth_enumerate_eq render_turn_def)

lemma join_concat:
  "join sep xs = (case xs of [] \<Rightarrow> [] | x # ys \<Rightarrow> x @ concat (map (\<lambda>y. sep @ y) ys))"
  by (induction sep xs rule: join.induct) simp_all

lemma lines_of_newline: "lines_of (CHR 0x0A # rest) = [] # lines_of rest"
  by simp

text \<open>The requests of the audio stage, when a credential is configured: at least one,
  each for the prompt built from the script.\<close>

lemma generateAudio_requests:
  assumes "getAiClient e = Inr ()"
  shows "fst (generateAudio e scr) \<noteq> [] \<and>
         (\<forall>r \<in> set (fst (generateAudio e scr)). contents r = tts_prompt scr)"
  using assms
  by (simp add: generateAudio_def Let_def tts_request_def split: sum.splits)

text \<open>
  Claim C9, as amended. With a credential configured, the audio stage issues at least one
  request, and the text of every request it issues is the instruction, an empty line, and
  the dialogue entries in order, each rendered as speaker, colon, space, text, with one
  newline between consecutive entries. When the dialogue is not empty and no entry's text
  holds a newline, the lines of that text after the instruction and the empty line are
  exactly the rendered entries, one line per entry. For every script the transcript shows
  one turn per entry, the i-th turn carrying the speaker and the text of the i-th entry.
\<close>

theorem C9_speech_text_has_one_line_per_entry:
  assumes "getAiClient e = Inr ()"
  shows "fst (generateAudio e scr) \<noteq> [] \<and>
    (\<forall>r \<in> set (fst (generateAudio e scr)).
       contents r =
         (''Read the following dialogue exactly as written, '' @
          ''assigning the voices to the correct speakers.'') @ [CHR 0x0A, CHR 0x0A] @
         (case dialogue scr of
            [] \<Rightarrow> []
          | l # ls \<Rightarrow>
              ((case speaker l of Host \<Rightarrow> ''Host'' | Guest \<Rightarrow> ''Guest'') @ '': '' @ text l) @
              concat (map (\<lambda>l. CHR 0x0A #
                (case speaker l of Host \<Rightarrow> ''Host'' | Guest \<Rightarrow> ''Guest'') @ '': '' @ text l) ls)) \<and>
       (dialogue scr \<noteq> [] \<and> (\<forall>l \<in> set (dialogue scr). CHR 0x0A \<notin> set (text l)) \<longrightarrow>
          lines_of (contents r) =
            (''Read the following dialogue exactly as written, '' @
             ''assigning the voices to the correct speakers.'') # [] #
            map (\<lambda>l. (case speaker l of Host \<Rightarrow> ''Host'' | Guest \<Rightarrow> ''Guest'') @ '': '' @ text l)
              (dialogue scr) \<and>
          length (lines_of (contents r)) = length (dialogue scr) + 2)) \<and>
    (\<forall>s ep. episode s = Some ep \<and> script ep = scr \<longrightarrow>
       (\<exists>ts. renderScript s = Some ts \<and> length ts = length (dialogue scr) \<and>
          (\<forall>i < length ts. turn_key (ts ! i) = i \<and>
               label (ts ! i) =
                 (case speaker (dialogue scr ! i) of Host \<Rightarrow> ''Host'' | Guest \<Rightarrow> ''Guest'') \<and>
               body (ts ! i) = text (dialogue scr ! i))))"
proof -
  let ?head = "''Read the following dialogue exactly as written, '' @
               ''assigning the voices to the correct speakers.''"
  let ?R = "\<lambda>l. (case speaker l of Host \<Rightarrow> ''Host'' | Guest \<Rightarrow> ''Guest'') @ '': '' @ text l"
  have R: "render_line = ?R"
    by (rule ext) (simp add: render_line_def speaker_name_def)
  have prompt: "tts_prompt scr = ?head @ [CHR 0x0A, CHR 0x0A] @ scriptText scr"
    by (simp add: tts_prompt_def nl_def)
  have script_text: "scriptText scr =
      (case dialogue scr of [] \<Rightarrow> [] | l # ls \<Rightarrow> ?R l @ concat (map (\<lambda>l. CHR 0x0A # ?R l) ls))"
    unfolding scriptText_def join_concat R by (simp add: nl_def comp_def split: list.splits)
  have head: "CHR 0x0A \<notin> set ?head"
    by simp
  have lines: "lines_of (tts_prompt scr) = ?head # [] # map ?R (dialogue scr)"
    if "dialogue scr \<noteq> []" and "\<forall>l \<in> set (dialogue scr). CHR 0x0A \<notin> set (text l)"
  proof -
    from that have "lines_of (scriptText scr) = map render_line (dialogue scr)"
      unfolding scriptText_def
      by (intro lines_of_join) (auto simp: render_line_no_newline)
    then have body: "lines_of (scriptText scr) = map ?R (dialogue scr)"
      unfolding R .
    have "lines_of (tts_prompt scr) = lines_of (?head @ nl @ (CHR 0x0A # scriptText scr))"
      unfolding prompt by (simp add: nl_def)
    also have "\<dots> = ?head # lines_of (CHR 0x0A # scriptText scr)"
      using head by (rule lines_of_append)
    also have "\<dots> = ?head # [] # lines_of (scriptText scr)"
      unfolding lines_of_newline ..
    finally show ?thesis
      unfolding body .
  qed
  have sent: "contents r = ?head @ [CHR 0x0A, CHR 0x0A] @
         (case dialogue scr of [] \<Rightarrow> [] | l # ls \<Rightarrow> ?R l @ concat (map (\<lambda>l. CHR 0x0A # ?R l) ls)) \<and>
       (dialogue scr \<noteq> [] \<and> (\<forall>l \<in> set (dialogue scr). CHR 0x0A \<notin> set (text l)) \<longrightarrow>
          lines_of (contents r) = ?head # [] # map ?R (dialogue scr) \<and>
          length (lines_of (contents r)) = length (dialogue scr) + 2)"
    if "r \<in> set (fst (generateAudio e scr))" for r
  proof -
    from generateAudio_requests [OF assms, of scr] that have c: "contents r = tts_prompt scr"
      by blast
    have one: "contents r = ?head @ [CHR 0x0A, CHR 0x0A] @
         (case dialogue scr of [] \<Rightarrow> [] | l # ls \<Rightarrow> ?R l @ concat (map (\<lambda>l. CHR 0x0A # ?R l) ls))"
      unfolding c prompt script_text ..
    have two: "lines_of (contents r) = ?head # [] # map ?R (dialogue scr) \<and>
          length (lines_of (contents r)) = length (dialogue scr) + 2"
      if "dialogue scr \<noteq> []" and "\<forall>l \<in> set (dialogue scr). CHR 0x0A \<notin> set (text l)"
      unfolding c lines [OF that] by simp
    from one two show ?thesis by blast
  qed
  have turns: "\<exists>ts. renderScript s = Some ts \<and> length ts = length (dialogue scr) \<and>
          (\<forall>i < length ts. turn_key (ts ! i) = i \<and>
               label (ts ! i) =
                 (case speaker (dialogue scr ! i) of Host \<Rightarrow> ''Host'' | Guest \<Rightarrow> ''Guest'') \<and>
               body (ts ! i) = text (dialogue scr ! i))"
    if "episode s = Some ep" and "script ep = scr" for s ep
    using renderScript_turns [OF that(1)] that(2) by (simp add: speaker_name_def)
  from generateAudio_requests [OF assms, of scr] have "fst (generateAudio e scr) \<noteq> []"
    by blast
  with sent turns show ?thesis by blast
qed

theorem C9_speech_text_has_one_line_per_entry_witness:
  "getAiClient sushi_env = Inr () \<and>
   dialogue demo_script \<noteq> [] \<and>
   map text (dialogue demo_script) = [''Welcome'', ''Hi''] \<and>
   map model (fst (generateAudio sushi_env demo_script)) =
     [''gemini-2.5-flash-preview-tts'', ''gemini-2.5-flash-preview-tts''] \<and>
   map (lines_of \<circ> contents) (fst (generateAudio sushi_env demo_script)) =
     replicate 2
       [''Read the following dialogue exactly as written, assigning the voices to the correct speakers.'',
        [], ''Host: Welcome'', ''Guest: Hi''] \<and>
   (\<exists>ts. renderScript ready_state = Some ts \<and> length ts = 2 \<and>
      label (ts ! 0) = ''Host'' \<and> body (ts ! 0) = ''Welcome'' \<and>
      label (ts ! 1) = ''Guest'' \<and> body (ts ! 1) = ''Hi'')"
proof -
  have h1: "getAiClient sushi_env = Inr ()"
    by (simp add: demo_eval getAiClient_def falsy_def)
  note main = C9_speech_text_has_one_line_per_entry [OF h1, of demo_script]
  have h2: "dialogue demo_script \<noteq> []"
    by (simp add: demo_script_def)
  have h3: "map text (dialogue demo_script) = [''Welcome'', ''Hi'']"
    by (simp add: demo_script_def)
  have h4: "\<forall>l \<in> set (dialogue demo_script). CHR 0x0A \<notin> set (text l)"
    by (simp add: demo_script_def)
  have d: "dialogue demo_script ! 0 = \<lparr>speaker = Host, text = ''Welcome''\<rparr>"
    "dialogue demo_script ! 1 = \<lparr>speaker = Guest, text = ''Hi''\<rparr>"
    "length (dialogue demo_script) = 2"
    by (simp_all add: demo_script_def)
  have rendered: "map (\<lambda>l. (case speaker l of Host \<Rightarrow> ''Host'' | Guest \<Rightarrow> ''Guest'') @ '': '' @ text l)
      (dialogue demo_script) = [''Host: Welcome'', ''Guest: Hi'']"
    by (simp add: demo_script_def)
  have "snd (generateAudio sushi_env demo_script) = Inr (AudioBuffer 60)"
    by (simp add: demo_eval stage_eval)
  then have reqs: "fst (generateAudio sushi_env demo_script) =
      [tts_request demo_script ''Nova'', tts_request demo_script ''Kore'']"
    by (rule generateAudio_calls)
  have models: "map model (fst (generateAudio sushi_env demo_script)) =
     [''gemini-2.5-flash-preview-tts'', ''gemini-2.5-flash-preview-tts'']"
    unfolding reqs by (simp add: tts_request_def)
  have line: "lines_of (contents r) =
      [''Read the following dialogue exactly as written, assigning the voices to the correct speakers.'',
       [], ''Host: Welcome'', ''Guest: Hi'']"
    if "r \<in> set (fst (generateAudio sushi_env demo_script))" for r
  proof -
    from main that h2 h4 have "lines_of (contents r) =
        (''Read the following dialogue exactly as written, '' @
         ''assigning the voices to the correct speakers.'') # [] #
        map (\<lambda>l. (case speaker l of Host \<Rightarrow> ''Host'' | Guest \<Rightarrow> ''Guest'') @ '': '' @ text l)
          (dialogue demo_script)"
      by blast
    then show ?thesis
      unfolding rendered by simp
  qed
  have lines: "map (lines_of \<circ> contents) (fst (generateAudio sushi_env demo_script)) =
     replicate 2
       [''Read the following dialogue exactly as written, assigning the voices to the correct speakers.'',
        [], ''Host: Welcome'', ''Guest: Hi'']"
    using line [of "tts_request demo_script ''Nova''"] line [of "tts_request demo_script ''Kore''"]
    unfolding reqs by (simp add: numeral_2_eq_2)
  have ep: "episode ready_state =
      Some \<lparr>episode_id = ''1'', script = demo_script,
            coverImageBase64 = Some ''data:image/png;base64,iVBOR'',
            audioBuffer = Some (AudioBuffer 60)\<rparr> \<and>
      script \<lparr>episode_id = ''1'', script = demo_script,
            coverImageBase64 = Some ''data:image/png;base64,iVBOR'',
            audioBuffer = Some (AudioBuffer 60)\<rparr> = demo_script"
    by (simp add: ready_state_def)
  from main ep obtain ts where ts: "renderScript ready_state = Some ts"
      "length ts = length (dialogue demo_script)"
      "\<forall>i < length ts. turn_key (ts ! i) = i \<and>
          label (ts ! i) =
            (case speaker (dialogue demo_script ! i) of Host \<Rightarrow> ''Host'' | Guest \<Rightarrow> ''Guest'') \<and>
          body (ts ! i) = text (dialogue demo_script ! i)"
    by blast
  from ts(2) have len: "length ts = 2"
    unfolding d .
  from ts(3) len have "label (ts ! 0) =
        (case speaker (dialogue demo_script ! 0) of Host \<Rightarrow> ''Host'' | Guest \<Rightarrow> ''Guest'') \<and>
      body (ts ! 0) = text (dialogue demo_script ! 0) \<and>
      label (ts ! 1) =
        (case speaker (dialogue demo_script ! 1) of Host \<Rightarrow> ''Host'' | Guest \<Rightarrow> ''Guest'') \<and>
      body (ts ! 1) = text (dialogue demo_script ! 1)"
    by simp
  then have e: "label (ts ! 0) = ''Host'' \<and> body (ts ! 0) = ''Welcome'' \<and>
      label (ts ! 1) = ''Guest'' \<and> body (ts ! 1) = ''Hi''"
    unfolding d by simp
  from h1 h2 h3 models lines ts(1) len e show ?thesis by blast
qed

text \<open>
  Claim C9, as stated, fails. The one entry of \<open>two_line_script\<close> has a newline in its text,
  and the text sent for it has two dialogue lines; \<open>empty_script\<close> has no entry, and the
  text rendered for it is one empty line.
\<close>

theorem C9_rendered_lines_differ_from_entries:
  "length (dialogue two_line_script) = 1 \<and>
   lines_of (scriptText two_line_script) = [''Host: Hello'', ''world''] \<and>
   map (lines_of \<circ> contents) (fst (generateAudio sushi_env two_line_script)) =
     replicate 2
       [''Read the following dialogue exactly as written, assigning the voices to the correct speakers.'',
        [], ''Host: Hello'', ''world''] \<and>
   length (lines_of (scriptText two_line_script)) \<noteq> length (dialogue two_line_script) \<and>
   length (dialogue empty_script) = 0 \<and>
   lines_of (scriptText empty_script) = [] # [] \<and>
   length (lines_of (scriptText empty_script)) \<noteq> length (dialogue empty_script)"
  by (simp add: two_line_script_def empty_script_def scriptText_def render_line_def
        speaker_name_def nl_def tts_prompt_def demo_eval stage_eval numeral_2_eq_2)

section \<open>The visualizer's attach step\<close>

lemma length_bars: "length (bars w x ds) = length ds"
  by (induction ds arbitrary: x) simp_all

lemma attach_absorbs: "\<exists>v'. attach e src a v = Inr v'"
  by (simp add: attach_def split: sum.splits)

lemma attach_frame:
  assumes "attach e src a v = Inr v'"
  shows "analyserRef v' = analyserRef v" "animationRef v' = animationRef v"
    "frames_requested v' = frames_requested v" "frames_cancelled v' = frames_cancelled v"
    "analysers_created v' = analysers_created v"
    "\<And>x. connect e (edges v) src a = Inl x \<Longrightarrow> edges v' = edges v"
    "\<And>es. connect e (edges v) src a = Inr es \<Longrightarrow> edges v' = es"
  using assms by (auto simp: attach_def split: sum.splits)

text \<open>The effect never lets an exception out, whatever \<^verbatim>\<open>connect\<close> does.\<close>

lemma effect_never_raises: "\<exists>v'. AudioVisualizer_effect e p v = Inr v'"
proof -
  obtain w where "attach e (the (sourceNode p))
      (node_id (case analyserRef v of
                  None \<Rightarrow> \<lparr>node_id = analysers_created v, fftSize = 256\<rparr> | Some a' \<Rightarrow> a'))
      (case analyserRef v of
         None \<Rightarrow> v\<lparr>analyserRef := Some \<lparr>node_id = analysers_created v, fftSize = 256\<rparr>,
                    analysers_created := analysers_created v + 1\<rparr>
       | Some a' \<Rightarrow> v) = Inr w"
    using attach_absorbs by blast
  then show ?thesis
    by (auto simp: AudioVisualizer_effect_def Let_def split: option.splits bool.splits)
qed

text \<open>One run of the effect on a live source with a canvas, in closed form.\<close>

lemma effect_live:
  assumes "audioContext p = Some c" and "sourceNode p = Some src" and "playing p"
    and "has_canvas e" and "has_ctx2d e"
  shows "\<exists>a v'. AudioVisualizer_effect e p v = Inr v' \<and> analyserRef v' = Some a \<and>
           (analyserRef v \<noteq> None \<longrightarrow> analyserRef v = Some a) \<and>
           animationRef v' = frames_requested v + 1 \<and>
           frames_requested v' = frames_requested v + 1 \<and>
           length (canvas v') = fftSize a div 2 \<and>
           (\<forall>x. connect e (edges v) src (node_id a) = Inl x \<longrightarrow> edges v' = edges v) \<and>
           (\<forall>es. connect e (edges v) src (node_id a) = Inr es \<longrightarrow> edges v' = es)"
proof (cases "analyserRef v")
  case None
  let ?a = "\<lparr>node_id = analysers_created v, fftSize = 256\<rparr>"
  let ?v1 = "v\<lparr>analyserRef := Some ?a, analysers_created := analysers_created v + 1\<rparr>"
  obtain w where w: "attach e src (node_id ?a) ?v1 = Inr w"
    using attach_absorbs by blast
  note f = attach_frame [OF w]
  have run: "AudioVisualizer_effect e p v = Inr (draw e (fftSize ?a div 2) w)"
    using assms None w by (simp add: AudioVisualizer_effect_def Let_def)
  show ?thesis
    apply (rule exI [of _ ?a], rule exI [of _ "draw e (fftSize ?a div 2) w"])
    using run None f
    by (simp add: draw_def Let_def length_bars getByteFrequencyData_def)
next
  case (Some a)
  obtain w where w: "attach e src (node_id a) v = Inr w"
    using attach_absorbs by blast
  note f = attach_frame [OF w]
  have run: "AudioVisualizer_effect e p v = Inr (draw e (fftSize a div 2) w)"
    using assms Some w by (simp add: AudioVisualizer_effect_def Let_def)
  show ?thesis
    apply (rule exI [of _ a], rule exI [of _ "draw e (fftSize a div 2) w"])
    using run Some f
    by (simp add: draw_def Let_def length_bars getByteFrequencyData_def)
qed

lemma effect_cleanup_frame:
  "analyserRef (effect_cleanup v) = analyserRef v" "edges (effect_cleanup v) = edges v"
  "frames_requested (effect_cleanup v) = frames_requested v"
  by (simp_all add: effect_cleanup_def cancelAnimationFrame_def)

text \<open>
  Claim C7. Two runs of the visualizer's effect on the same live source, with React's
  cleanup between them, both return without an exception, whatever \<^verbatim>\<open>connect\<close> does on
  the second attach: the analyser created by the first run is kept, a raised \<^verbatim>\<open>connect\<close>
  leaves the edges as they were, and the second run requests its frame and paints its
  bars all the same.
\<close>

theorem C7_repeated_attach_does_not_raise:
  assumes "audioContext p = Some c" and "sourceNode p = Some src" and "playing p"
    and "has_canvas e1" and "has_ctx2d e1" and "has_canvas e2" and "has_ctx2d e2"
  shows "\<exists>a v1 v2. AudioVisualizer_effect e1 p v = Inr v1 \<and> analyserRef v1 = Some a \<and>
           AudioVisualizer_effect e2 p (effect_cleanup v1) = Inr v2 \<and>
           analyserRef v2 = Some a \<and>
           animationRef v2 = frames_requested v1 + 1 \<and>
           length (canvas v2) = fftSize a div 2 \<and>
           (\<forall>x. connect e2 (edges v1) src (node_id a) = Inl x \<longrightarrow> edges v2 = edges v1)"
proof -
  from effect_live [OF assms(1-3) assms(4,5), of v]
  obtain a v1 where first: "AudioVisualizer_effect e1 p v = Inr v1" "analyserRef v1 = Some a"
    by blast
  from effect_live [OF assms(1-3) assms(6,7), of "effect_cleanup v1"]
  obtain a' v2 where second: "AudioVisualizer_effect e2 p (effect_cleanup v1) = Inr v2"
    "analyserRef v2 = Some a'"
    "analyserRef (effect_cleanup v1) \<noteq> None \<longrightarrow> analyserRef (effect_cleanup v1) = Some a'"
    "animationRef v2 = frames_requested (effect_cleanup v1) + 1"
    "length (canvas v2) = fftSize a' div 2"
    "\<forall>x. connect e2 (edges (effect_cleanup v1)) src (node_id a') = Inl x \<longrightarrow>
         edges v2 = edges (effect_cleanup v1)"
    by blast
  from second(3) first(2) have same: "a' = a"
    by (simp add: effect_cleanup_frame)
  show ?thesis
    apply (rule exI [of _ a], rule exI [of _ v1], rule exI [of _ v2])
    using first second(1,2,4,5,6) same by (simp add: effect_cleanup_frame)
qed

lemmas vis_eval =
  AudioVisualizer_effect_def attach_def draw_def effect_cleanup_def cancelAnimationFrame_def
  strict_env_def strict_connect_def demo_props_def initial_vis_def Let_def

theorem C7_repeated_attach_does_not_raise_witness:
  "audioContext demo_props = Some Running \<and> sourceNode demo_props = Some 1 \<and>
   playing demo_props \<and> has_canvas strict_env \<and> has_ctx2d strict_env \<and>
   (\<exists>a v1 v2. AudioVisualizer_effect strict_env demo_props initial_vis = Inr v1 \<and>
      analyserRef v1 = Some a \<and>
      connect strict_env (edges v1) 1 (node_id a) = Inl (DOMException ''InvalidAccessError'') \<and>
      AudioVisualizer_effect strict_env demo_props (effect_cleanup v1) = Inr v2 \<and>
      analyserRef v2 = Some a \<and> animationRef v2 = frames_requested v1 + 1 \<and>
      length (canvas v2) = fftSize a div 2 \<and> edges v2 = edges v1)"
proof -
  have h: "audioContext demo_props = Some Running" "sourceNode demo_props = Some 1"
    "playing demo_props" "has_canvas strict_env" "has_ctx2d strict_env"
    by (simp_all add: demo_props_def strict_env_def)
  from C7_repeated_attach_does_not_raise [OF h(1,2,3) h(4,5) h(4,5), of initial_vis]
  obtain a v1 v2 where r: "AudioVisualizer_effect strict_env demo_props initial_vis = Inr v1"
    "analyserRef v1 = Some a"
    "AudioVisualizer_effect strict_env demo_props (effect_cleanup v1) = Inr v2"
    "analyserRef v2 = Some a" "animationRef v2 = frames_requested v1 + 1"
    "length (canvas v2) = fftSize a div 2"
    "\<forall>x. connect strict_env (edges v1) 1 (node_id a) = Inl x \<longrightarrow> edges v2 = edges v1"
    by blast
  have first: "analyserRef v1 = Some \<lparr>node_id = 0, fftSize = 256\<rparr> \<and> edges v1 = [(1, 0)]"
    using r(1) by (auto simp: vis_eval)
  with r(2) have a: "a = \<lparr>node_id = 0, fftSize = 256\<rparr>"
    by simp
  have raises: "connect strict_env (edges v1) 1 (node_id a) = Inl (DOMException ''InvalidAccessError'')"
    using first by (simp add: a strict_env_def strict_connect_def)
  with r(7) have "edges v2 = edges v1"
    by blast
  with h r(1-6) raises show ?thesis by blast
qed

end
